theory Spec2Isabelle
  imports Complex_Main "HOL-Library.AList" "HOL-Library.Sublist" "HOL-Library.Multiset"
begin

section \<open>Values and documents\<close>

text \<open>
  The handlers of \<^verbatim>\<open>main.py\<close> work on documents of the store: Python dictionaries
  from field names to arbitrary values (\<^verbatim>\<open>Dict[str, Any]\<close>). A document is an association
  list in insertion order, as a Python dictionary is; a value is one of the kinds of value a
  stored document holds. Python floats are modelled as real numbers, in the first sections
  with exact arithmetic (no rounding, no infinities, no NaN) and, in the section on the
  runtime, with the arithmetic left open; strings are lists of 8-bit characters, a character
  outside ASCII being its UTF-8 bytes.
\<close>

datatype pyerr = ValueError | TypeError | AttributeError

datatype pyval =
    PNone
  | PBool bool
  | PInt int
  | PFloat real
  | PStr string
  | PObjectId string \<comment> \<open>a \<^verbatim>\<open>bson.ObjectId\<close>, carrying its \<^verbatim>\<open>str()\<close>\<close>
  | PDatetime string \<comment> \<open>a \<^verbatim>\<open>datetime\<close>, carrying its \<^verbatim>\<open>isoformat()\<close>\<close>
  | PList "pyval list"
  | PDict "(string \<times> pyval) list"

type_synonym doc = "(string \<times> pyval) list"

text \<open>Truth value of a Python object, as \<^verbatim>\<open>or\<close>, \<^verbatim>\<open>and\<close> and \<^verbatim>\<open>if\<close> test it.\<close>

fun truthy :: "pyval \<Rightarrow> bool" where
  "truthy PNone = False"
| "truthy (PBool b) = b"
| "truthy (PInt i) = (i \<noteq> 0)"
| "truthy (PFloat r) = (r \<noteq> 0)"
| "truthy (PStr s) = (s \<noteq> [])"
| "truthy (PObjectId h) = True"
| "truthy (PDatetime s) = True"
| "truthy (PList vs) = (vs \<noteq> [])"
| "truthy (PDict kvs) = (kvs \<noteq> [])"

text \<open>\<^verbatim>\<open>d.get(k)\<close> and \<^verbatim>\<open>d.get(k, default)\<close>.\<close>

definition dict_get :: "doc \<Rightarrow> string \<Rightarrow> pyval" where
  "dict_get d k = (case map_of d k of None \<Rightarrow> PNone | Some v \<Rightarrow> v)"

definition dict_get_default :: "doc \<Rightarrow> string \<Rightarrow> pyval \<Rightarrow> pyval" where
  "dict_get_default d k dflt = (case map_of d k of None \<Rightarrow> dflt | Some v \<Rightarrow> v)"

text \<open>
  The builtin \<^verbatim>\<open>float(v)\<close>. What it makes of a string is the Python runtime's business:
  the parser is the parameter \<open>str_float\<close>, \<open>None\<close> where \<^verbatim>\<open>float\<close> raises ValueError.
\<close>

fun to_float :: "(string \<Rightarrow> real option) \<Rightarrow> pyval \<Rightarrow> pyerr + real" where
  "to_float str_float PNone = Inl TypeError"
| "to_float str_float (PBool b) = Inr (if b then 1 else 0)"
| "to_float str_float (PInt i) = Inr (of_int i)"
| "to_float str_float (PFloat r) = Inr r"
| "to_float str_float (PStr s) =
     (case str_float s of None \<Rightarrow> Inl ValueError | Some r \<Rightarrow> Inr r)"
| "to_float str_float (PObjectId h) = Inl TypeError"
| "to_float str_float (PDatetime s) = Inl TypeError"
| "to_float str_float (PList vs) = Inl TypeError"
| "to_float str_float (PDict kvs) = Inl TypeError"

text \<open>
  For the examples, \<^verbatim>\<open>float\<close> on strings is the parser that rejects its argument: the only
  string an example hands to \<^verbatim>\<open>float\<close> is \<open>abc\<close>, which is no numeral.
\<close>

definition no_float :: "string \<Rightarrow> real option" where
  "no_float s = None"

text \<open>\<^verbatim>\<open>str.lower()\<close> on ASCII letters; every other character is left as it is.\<close>

definition lower_char :: "char \<Rightarrow> char" where
  "lower_char c =
     (let n = (of_char c :: nat) in if 65 \<le> n \<and> n \<le> 90 then char_of (n + 32) else c)"

definition lower :: "string \<Rightarrow> string" where
  "lower s = map lower_char s"

text \<open>\<^verbatim>\<open>v.lower()\<close> on an arbitrary value: only a string has the method.\<close>

fun val_lower :: "pyval \<Rightarrow> pyerr + string" where
  "val_lower (PStr s) = Inr (lower s)"
| "val_lower v = Inl AttributeError"

text \<open>\<^verbatim>\<open>sub in text\<close> on strings: \<open>sub\<close> occurs in \<open>text\<close> as a contiguous run.\<close>

fun str_in :: "string \<Rightarrow> string \<Rightarrow> bool" where
  "str_in sub [] = (sub = [])"
| "str_in sub (c # cs) = (prefix sub (c # cs) \<or> str_in sub cs)"

text \<open>
  \<^verbatim>\<open>round(x, ndigits)\<close> on a float: the nearest multiple of \<open>10 ^ - ndigits\<close>, a tie going
  to the even one.
\<close>

definition round_half_even :: "real \<Rightarrow> int" where
  "round_half_even x =
     (let f = \<lfloor>x\<rfloor>; d = x - of_int f
      in if d < 1 / 2 then f else if 1 / 2 < d then f + 1 else if even f then f else f + 1)"

definition py_round :: "real \<Rightarrow> nat \<Rightarrow> real" where
  "py_round x ndigits = of_int (round_half_even (x * 10 ^ ndigits)) / 10 ^ ndigits"

section \<open>Utilities\<close>

definition serialize_id :: "pyval \<Rightarrow> pyval" where
  "serialize_id v = (case v of PObjectId h \<Rightarrow> PStr h | _ \<Rightarrow> v)"

definition serialize_field :: "doc \<Rightarrow> string \<times> pyval \<Rightarrow> doc" where
  "serialize_field out kv =
     (let k = fst kv; v = snd kv
      in if k = ''_id'' then AList.update ''id'' (serialize_id v) out
         else (case v of
                 PObjectId h \<Rightarrow> AList.update k (PStr h) out
               | PDatetime s \<Rightarrow> AList.update k (PStr s) out
               | _ \<Rightarrow> AList.update k v out))"

definition serialize_doc :: "doc \<Rightarrow> doc" where
  "serialize_doc d = (if d = [] then d else foldl serialize_field [] d)"

section \<open>Geo distance\<close>

definition radians :: "real \<Rightarrow> real" where
  "radians x = x * (pi / 180)"

text \<open>\<^verbatim>\<open>math.sqrt\<close> raises ValueError (math domain error) on a negative argument.\<close>

definition math_sqrt :: "real \<Rightarrow> pyerr + real" where
  "math_sqrt x = (if x < 0 then Inl ValueError else Inr (sqrt x))"

definition math_atan2 :: "real \<Rightarrow> real \<Rightarrow> real" where
  "math_atan2 y x =
     (if 0 < x then arctan (y / x)
      else if x < 0 then (if 0 \<le> y then arctan (y / x) + pi else arctan (y / x) - pi)
      else if 0 < y then pi / 2
      else if y < 0 then - (pi / 2)
      else 0)"

definition haversine_km :: "real \<Rightarrow> real \<Rightarrow> real \<Rightarrow> real \<Rightarrow> pyerr + real" where
  "haversine_km lat1 lon1 lat2 lon2 =
     (let R = 6371;
          dlat = radians (lat2 - lat1);
          dlon = radians (lon2 - lon1);
          a = (sin (dlat / 2))\<^sup>2 + cos (radians lat1) * cos (radians lat2) * (sin (dlon / 2))\<^sup>2
      in case math_sqrt a of
           Inl e \<Rightarrow> Inl e
         | Inr sa \<Rightarrow>
             (case math_sqrt (1 - a) of
                Inl e \<Rightarrow> Inl e
              | Inr sb \<Rightarrow> Inr (R * (2 * math_atan2 sa sb))))"

text \<open>The quantity \<open>a\<close> of the haversine formula, as \<^verbatim>\<open>_haversine_km\<close> computes it.\<close>

definition hav_a :: "real \<Rightarrow> real \<Rightarrow> real \<Rightarrow> real \<Rightarrow> real" where
  "hav_a lat1 lon1 lat2 lon2 =
     (sin (radians (lat2 - lat1) / 2))\<^sup>2
     + cos (radians lat1) * cos (radians lat2) * (sin (radians (lon2 - lon1) / 2))\<^sup>2"

section \<open>Proximity search\<close>

text \<open>
  The body of the \<^verbatim>\<open>try\<close> in \<^verbatim>\<open>list_items\<close>: both coordinates through \<^verbatim>\<open>float\<close>, the
  latitude first, then the distance.
\<close>

definition try_dist :: "(string \<Rightarrow> real option) \<Rightarrow> real \<Rightarrow> real \<Rightarrow> doc \<Rightarrow> pyerr + real" where
  "try_dist str_float lat lng d_ser =
     (case to_float str_float (dict_get d_ser ''location_lat'') of
        Inl e \<Rightarrow> Inl e
      | Inr la \<Rightarrow>
          (case to_float str_float (dict_get d_ser ''location_lng'') of
             Inl e \<Rightarrow> Inl e
           | Inr lo \<Rightarrow> haversine_km lat lng la lo))"

text \<open>
  \<open>dist\<close> after the \<^verbatim>\<open>try\<close>/\<^verbatim>\<open>except Exception\<close>: the float computed, or the integer
  \<open>9999\<close>; \<^verbatim>\<open>round(dist, 2)\<close> keeps the kind of number it is given.
\<close>

definition item_dist :: "(string \<Rightarrow> real option) \<Rightarrow> real \<Rightarrow> real \<Rightarrow> doc \<Rightarrow> pyval" where
  "item_dist str_float lat lng d_ser =
     (case try_dist str_float lat lng d_ser of Inl e \<Rightarrow> PInt 9999 | Inr x \<Rightarrow> PFloat x)"

fun num_val :: "pyval \<Rightarrow> real" where
  "num_val (PFloat r) = r"
| "num_val (PInt i) = of_int i"
| "num_val (PBool b) = (if b then 1 else 0)"
| "num_val v = 0"

fun round_val :: "pyval \<Rightarrow> nat \<Rightarrow> pyval" where
  "round_val (PFloat r) ndigits = PFloat (py_round r ndigits)"
| "round_val v ndigits = v"

text \<open>One turn of the loop: the enriched list after document \<open>d\<close>.\<close>

definition enrich_step ::
  "(string \<Rightarrow> real option) \<Rightarrow> real \<Rightarrow> real \<Rightarrow> real \<Rightarrow> doc list \<Rightarrow> doc \<Rightarrow> doc list" where
  "enrich_step str_float lat lng radius_km enriched d =
     (let d_ser = serialize_doc d;
          dist = item_dist str_float lat lng d_ser;
          d_ser' = AList.update ''distance_km'' (round_val dist 2) d_ser
      in if num_val dist \<le> radius_km \<and> truthy (dict_get_default d_ser' ''available'' (PBool True))
         then enriched @ [d_ser'] else enriched)"

text \<open>
  The sort key \<^verbatim>\<open>x.get("distance_km", 9999)\<close>, read as a number: the loop has stored
  a float or the integer 9999 under \<open>distance_km\<close> in every document of the list.
\<close>

definition distance_key :: "doc \<Rightarrow> real" where
  "distance_key x = num_val (dict_get_default x ''distance_km'' (PInt 9999))"

text \<open>
  \<^verbatim>\<open>list_items\<close>, the documents of the store being the argument \<open>docs\<close>.
  \<^verbatim>\<open>list.sort\<close> is a stable sort, as \<^const>\<open>sort_key\<close> is.
\<close>

definition list_items ::
  "(string \<Rightarrow> real option) \<Rightarrow> doc list \<Rightarrow> real \<Rightarrow> real \<Rightarrow> real \<Rightarrow> doc list" where
  "list_items str_float docs lat lng radius_km =
     sort_key distance_key (foldl (enrich_step str_float lat lng radius_km) [] docs)"

text \<open>
  What the search computes, document by document: the value a field ends with in the serialized
  document, the serialized document with its \<open>distance_km\<close>, the number the radius is compared
  with, the truth value of \<open>available\<close> (\<open>True\<close> when the field is absent), and whether the
  document is retained.
\<close>

definition serialize_val :: "pyval \<Rightarrow> pyval" where
  "serialize_val v = (case v of PObjectId h \<Rightarrow> PStr h | PDatetime s \<Rightarrow> PStr s | _ \<Rightarrow> v)"

definition annotate :: "(string \<Rightarrow> real option) \<Rightarrow> real \<Rightarrow> real \<Rightarrow> doc \<Rightarrow> doc" where
  "annotate str_float lat lng d =
     AList.update ''distance_km'' (round_val (item_dist str_float lat lng (serialize_doc d)) 2)
       (serialize_doc d)"

definition search_dist :: "(string \<Rightarrow> real option) \<Rightarrow> real \<Rightarrow> real \<Rightarrow> doc \<Rightarrow> real" where
  "search_dist str_float lat lng d = num_val (item_dist str_float lat lng (serialize_doc d))"

definition item_available :: "doc \<Rightarrow> bool" where
  "item_available d = truthy (dict_get_default (serialize_doc d) ''available'' (PBool True))"

definition retained :: "(string \<Rightarrow> real option) \<Rightarrow> real \<Rightarrow> real \<Rightarrow> real \<Rightarrow> doc \<Rightarrow> bool" where
  "retained str_float lat lng radius_km d =
     (search_dist str_float lat lng d \<le> radius_km \<and> item_available d)"

section \<open>Suggestion engine\<close>

definition tip_banana :: string where
  "tip_banana = ''Freeze overripe bananas for smoothies or baking.''"
definition recipe_banana_bread :: string where
  "recipe_banana_bread = ''Banana Bread na Pang-tipid''"
definition recipe_smoothie :: string where
  "recipe_smoothie = ''Smoothie: saging + gatas + yelo''"
definition recipe_maruya :: string where
  "recipe_maruya = ''Maruya / Banana Fritters''"
definition tip_bread :: string where
  "tip_bread = ''Gawing breadcrumbs o croutons ang matigas na tinapay.''"
definition recipe_french_toast :: string where
  "recipe_french_toast = ''French Toast / Toasted Bread with itlog''"
definition recipe_bread_pudding :: string where
  "recipe_bread_pudding = ''Bread Pudding sa Kaldero''"
definition tip_rice :: string where
  "tip_rice = ''Gawing sinangag ang natirang kanin'' @ [CHR 0xE2, CHR 0x80, CHR 0x94]
     @ ''perfect for breakfast!''"
definition recipe_sinangag :: string where
  "recipe_sinangag = ''Sinangag with Garlic at gulay''"
definition recipe_arroz_caldo :: string where
  "recipe_arroz_caldo = ''Arroz Caldo kung sabaw ang hanap''"
definition tip_gulay :: string where
  "tip_gulay = ''Gamitin sa stir-fry o soup ang nalalantang gulay.''"
definition recipe_stir_fry :: string where
  "recipe_stir_fry = ''Gulay Stir-fry na may toyo at bawang''"
definition recipe_pickled :: string where
  "recipe_pickled = ''Pickled Gulay para tumagal''"
definition tip_jars :: string where
  "tip_jars = ''Repurpose jars/containers for storage.''"
definition tip_donate :: string where
  "tip_donate = ''Donate locally para hindi mapunta sa landfill.''"
definition tip_fallback :: string where
  "tip_fallback = ''Check your fridge first'' @ [CHR 0xE2, CHR 0x80, CHR 0x94]
     @ ''baka pwedeng i-recipe na! '' @ [CHR 0xF0, CHR 0x9F, CHR 0x98, CHR 0x84]"
definition recipe_fallback :: string where
  "recipe_fallback = ''Fried Rice ng Bahay''"

record message =
  mascot_name :: string
  mascot_tagline :: string
  tips :: "string list"
  recipes :: "string list"

text \<open>
  The two accumulators \<open>tips\<close> and \<open>recipes\<close> of the function are the pair the rules pass
  along; \<^verbatim>\<open>add_tip\<close> and \<^verbatim>\<open>add_recipe\<close> append what is not yet there.
\<close>

definition add_new :: "string \<Rightarrow> string list \<Rightarrow> string list" where
  "add_new t acc = (if t \<in> set acc then acc else acc @ [t])"

definition add_tip :: "string \<Rightarrow> string list \<times> string list \<Rightarrow> string list \<times> string list" where
  "add_tip t st = (add_new t (fst st), snd st)"

definition add_recipe :: "string \<Rightarrow> string list \<times> string list \<Rightarrow> string list \<times> string list" where
  "add_recipe r st = (fst st, add_new r (snd st))"

definition banana_fires :: "string \<Rightarrow> bool" where
  "banana_fires text = str_in ''banana'' text"

definition bread_fires :: "string \<Rightarrow> bool" where
  "bread_fires text = (str_in ''bread'' text \<or> str_in ''tinapay'' text)"

definition rice_fires :: "string \<Rightarrow> bool" where
  "rice_fires text = (str_in ''rice'' text \<or> str_in ''kanin'' text)"

definition gulay_fires :: "string \<Rightarrow> bool" where
  "gulay_fires text =
     (str_in ''vegetable'' text \<or> str_in ''gulay'' text \<or> str_in ''lettuce'' text
      \<or> str_in ''carrot'' text)"

definition household_fires :: "string option \<Rightarrow> bool" where
  "household_fires category = (category = Some ''household'')"

definition suggestion_text :: "string \<Rightarrow> string option \<Rightarrow> string" where
  "suggestion_text title description =
     lower (title @ '' '' @ (case description of None \<Rightarrow> [] | Some d \<Rightarrow> d))"

text \<open>The \<^verbatim>\<open>if\<close> statements of the function, one by one and in its order.\<close>

definition banana_rule :: "string \<Rightarrow> string list \<times> string list \<Rightarrow> string list \<times> string list" where
  "banana_rule text st =
     (if banana_fires text
      then add_recipe recipe_maruya (add_recipe recipe_smoothie
             (add_recipe recipe_banana_bread (add_tip tip_banana st)))
      else st)"

definition bread_rule :: "string \<Rightarrow> string list \<times> string list \<Rightarrow> string list \<times> string list" where
  "bread_rule text st =
     (if bread_fires text
      then add_recipe recipe_bread_pudding (add_recipe recipe_french_toast (add_tip tip_bread st))
      else st)"

definition rice_rule :: "string \<Rightarrow> string list \<times> string list \<Rightarrow> string list \<times> string list" where
  "rice_rule text st =
     (if rice_fires text
      then add_recipe recipe_arroz_caldo (add_recipe recipe_sinangag (add_tip tip_rice st))
      else st)"

definition gulay_rule :: "string \<Rightarrow> string list \<times> string list \<Rightarrow> string list \<times> string list" where
  "gulay_rule text st =
     (if gulay_fires text
      then add_recipe recipe_pickled (add_recipe recipe_stir_fry (add_tip tip_gulay st))
      else st)"

definition household_rule ::
  "string option \<Rightarrow> string list \<times> string list \<Rightarrow> string list \<times> string list" where
  "household_rule category st =
     (if household_fires category then add_tip tip_donate (add_tip tip_jars st) else st)"

definition fallback_rule :: "string list \<times> string list \<Rightarrow> string list \<times> string list" where
  "fallback_rule st =
     (if fst st = [] \<and> snd st = []
      then add_recipe recipe_fallback (add_tip tip_fallback st)
      else st)"

definition generate_tipid_suggestions ::
  "string \<Rightarrow> string option \<Rightarrow> string option \<Rightarrow> message" where
  "generate_tipid_suggestions title description category =
     (let text = suggestion_text title description;
          st = fallback_rule (household_rule category (gulay_rule text (rice_rule text
                 (bread_rule text (banana_rule text ([], []))))))
      in \<lparr> mascot_name = ''Cen-'' @ [CHR 0x27] @ ''tipid'' @ [CHR 0x27],
           mascot_tagline = ''Pag '' @ [CHR 0x27] @ ''di na kailangan, wag itapon''
             @ [CHR 0xE2, CHR 0x80, CHR 0x94] @ ''I-Bigay o I-kusina!'',
           tips = fst st, recipes = snd st \<rparr>)"

text \<open>
  The rule table read as a whole: what the rules that fire contribute, in the order of the
  \<^verbatim>\<open>if\<close> statements, and whether any of them fires.
\<close>

definition rule_tips :: "string \<Rightarrow> string option \<Rightarrow> string list" where
  "rule_tips text category =
     (if banana_fires text then [tip_banana] else [])
     @ (if bread_fires text then [tip_bread] else [])
     @ (if rice_fires text then [tip_rice] else [])
     @ (if gulay_fires text then [tip_gulay] else [])
     @ (if household_fires category then [tip_jars, tip_donate] else [])"

definition any_fires :: "string \<Rightarrow> string option \<Rightarrow> bool" where
  "any_fires text category =
     (banana_fires text \<or> bread_fires text \<or> rice_fires text \<or> gulay_fires text
      \<or> household_fires category)"

definition rule_recipes :: "string \<Rightarrow> string list" where
  "rule_recipes text =
     (if banana_fires text then [recipe_banana_bread, recipe_smoothie, recipe_maruya] else [])
     @ (if bread_fires text then [recipe_french_toast, recipe_bread_pudding] else [])
     @ (if rice_fires text then [recipe_sinangag, recipe_arroz_caldo] else [])
     @ (if gulay_fires text then [recipe_stir_fry, recipe_pickled] else [])"

definition all_tips :: "string list" where
  "all_tips = [tip_banana, tip_bread, tip_rice, tip_gulay, tip_jars, tip_donate, tip_fallback]"
definition all_recipes :: "string list" where
  "all_recipes = [recipe_banana_bread, recipe_smoothie, recipe_maruya, recipe_french_toast,
  recipe_bread_pudding, recipe_sinangag, recipe_arroz_caldo, recipe_stir_fry, recipe_pickled, recipe_fallback]"

section \<open>Diversion aggregator\<close>

record stats =
  items_shared :: nat
  people_helped :: nat
  kilograms_diverted :: real

text \<open>
  \<^verbatim>\<open>qty = it.get("quantity") or 0\<close> and the operand of \<^verbatim>\<open>.lower()\<close> in
  \<^verbatim>\<open>unit = (it.get("unit") or "").lower()\<close>.
\<close>

definition qty_val :: "doc \<Rightarrow> pyval" where
  "qty_val it = (let q = dict_get it ''quantity'' in if truthy q then q else PInt 0)"

definition unit_val :: "doc \<Rightarrow> pyval" where
  "unit_val it = (let u = dict_get it ''unit'' in if truthy u then u else PStr [])"

text \<open>
  One turn of the loop of \<^verbatim>\<open>user_stats\<close> on the pair \<open>(people_helped, kg_diverted)\<close>.
  The unit is lower-cased before the quantity is converted, so a unit that is no string
  raises first.
\<close>

definition stats_step ::
  "(string \<Rightarrow> real option) \<Rightarrow> nat \<times> real \<Rightarrow> doc \<Rightarrow> pyerr + nat \<times> real" where
  "stats_step str_float st it =
     (case val_lower (unit_val it) of
        Inl e \<Rightarrow> Inl e
      | Inr unit \<Rightarrow>
          (case to_float str_float (qty_val it) of
             Inl e \<Rightarrow> Inl e
           | Inr f \<Rightarrow>
               (let kg = (if unit \<in> set [''kg'', ''kilo'', ''kilogram'', ''kilograms'']
                          then snd st + f
                          else if unit \<in> set [''g'', ''gram'', ''grams'']
                          then snd st + f / 1000
                          else if unit \<in> set [''lb'', ''lbs'', ''pound'', ''pounds'']
                          then snd st + f * 0.453592
                          else snd st + f * 0.2);
                    helped = (if dict_get_default it ''available'' (PBool True) = PBool False
                              then fst st + 1 else fst st)
                in Inr (helped, kg))))"

fun stats_loop ::
  "(string \<Rightarrow> real option) \<Rightarrow> nat \<times> real \<Rightarrow> doc list \<Rightarrow> pyerr + nat \<times> real" where
  "stats_loop str_float st [] = Inr st"
| "stats_loop str_float st (it # items) =
     (case stats_step str_float st it of
        Inl e \<Rightarrow> Inl e
      | Inr st' \<Rightarrow> stats_loop str_float st' items)"

text \<open>\<^verbatim>\<open>user_stats\<close>, the documents the store returns for the user being \<open>items\<close>.\<close>

definition user_stats :: "(string \<Rightarrow> real option) \<Rightarrow> doc list \<Rightarrow> pyerr + stats" where
  "user_stats str_float items =
     (case stats_loop str_float (0, 0) items of
        Inl e \<Rightarrow> Inl e
      | Inr st \<Rightarrow>
          Inr \<lparr> items_shared = length items, people_helped = fst st,
                kilograms_diverted = py_round (snd st) 2 \<rparr>)"

text \<open>
  What the aggregation computes, item by item: whether the unit and the quantity of an item go
  through \<^verbatim>\<open>.lower()\<close> and \<^verbatim>\<open>float\<close>, the lower-cased unit, the quantity as a number,
  the factor of a unit, and the kilograms of an item.
\<close>

definition convertible :: "(string \<Rightarrow> real option) \<Rightarrow> doc \<Rightarrow> bool" where
  "convertible str_float it =
     (case val_lower (unit_val it) of
        Inl e \<Rightarrow> False
      | Inr u \<Rightarrow> (case to_float str_float (qty_val it) of Inl e \<Rightarrow> False | Inr f \<Rightarrow> True))"

definition unit_of :: "doc \<Rightarrow> string" where
  "unit_of it = (case val_lower (unit_val it) of Inl e \<Rightarrow> [] | Inr u \<Rightarrow> u)"

definition qty_of :: "(string \<Rightarrow> real option) \<Rightarrow> doc \<Rightarrow> real" where
  "qty_of str_float it = (case to_float str_float (qty_val it) of Inl e \<Rightarrow> 0 | Inr f \<Rightarrow> f)"

definition unit_factor :: "string \<Rightarrow> real" where
  "unit_factor u =
     (if u \<in> set [''kg'', ''kilo'', ''kilogram'', ''kilograms''] then 1
      else if u \<in> set [''g'', ''gram'', ''grams''] then 1 / 1000
      else if u \<in> set [''lb'', ''lbs'', ''pound'', ''pounds''] then 0.453592
      else 0.2)"

definition item_kg :: "(string \<Rightarrow> real option) \<Rightarrow> doc \<Rightarrow> real" where
  "item_kg str_float it = qty_of str_float it * unit_factor (unit_of it)"

definition claimed :: "doc \<Rightarrow> bool" where
  "claimed it = (dict_get_default it ''available'' (PBool True) = PBool False)"

text \<open>
  The unit as the specification reads it: trimmed as well as lower-cased
  (\<^verbatim>\<open>str.strip()\<close> on ASCII white space).
\<close>

definition is_space :: "char \<Rightarrow> bool" where
  "is_space c = (c \<in> set [CHR 0x20, CHR 0x09, CHR 0x0A, CHR 0x0B, CHR 0x0C, CHR 0x0D])"

definition strip :: "string \<Rightarrow> string" where
  "strip s = rev (dropWhile is_space (rev (dropWhile is_space s)))"

definition spec_item_kg :: "(string \<Rightarrow> real option) \<Rightarrow> doc \<Rightarrow> real" where
  "spec_item_kg str_float it = qty_of str_float it * unit_factor (strip (unit_of it))"

section \<open>The handlers over the arithmetic of the runtime\<close>

text \<open>
  Python computes on doubles: every operation rounds its result, a decimal literal denotes the
  nearest double, \<^verbatim>\<open>float\<close> of an integer rounds, and \<^verbatim>\<open>str.lower()\<close> is that of Unicode.
  A double is a real number, so the values stay of type \<open>real\<close>; what the runtime computes on
  them is the parameter \<open>rt\<close> of the definitions of this section, which repeat
  \<^verbatim>\<open>user_stats\<close>, \<^verbatim>\<open>_haversine_km\<close> and \<^verbatim>\<open>list_items\<close> operation by operation. Literals
  that are doubles (\<open>0\<close>, \<open>1\<close>, \<open>2\<close>, \<open>1000\<close>, \<open>6371\<close>) stand for themselves; comparisons are
  exact. Infinities and NaN are not values of the model.
\<close>

record runtime =
  rt_float_of_str :: "string \<Rightarrow> real option"
  rt_float_of_int :: "int \<Rightarrow> real"
  rt_lower :: "string \<Rightarrow> string"
  rt_lit :: "real \<Rightarrow> real"
  rt_add :: "real \<Rightarrow> real \<Rightarrow> real"
  rt_sub :: "real \<Rightarrow> real \<Rightarrow> real"
  rt_mul :: "real \<Rightarrow> real \<Rightarrow> real"
  rt_div :: "real \<Rightarrow> real \<Rightarrow> real"
  rt_pow :: "real \<Rightarrow> nat \<Rightarrow> real"
  rt_radians :: "real \<Rightarrow> real"
  rt_sin :: "real \<Rightarrow> real"
  rt_cos :: "real \<Rightarrow> real"
  rt_sqrt :: "real \<Rightarrow> real"
  rt_atan2 :: "real \<Rightarrow> real \<Rightarrow> real"
  rt_round :: "real \<Rightarrow> nat \<Rightarrow> real"

text \<open>The runtime of exact arithmetic, with which the definitions of the sections above agree.\<close>

definition exact_rt :: "(string \<Rightarrow> real option) \<Rightarrow> runtime" where
  "exact_rt str_float =
     \<lparr> rt_float_of_str = str_float, rt_float_of_int = of_int, rt_lower = lower,
       rt_lit = (\<lambda>x. x), rt_add = (+), rt_sub = (-), rt_mul = (*), rt_div = (/),
       rt_pow = (^), rt_radians = radians, rt_sin = sin, rt_cos = cos, rt_sqrt = sqrt,
       rt_atan2 = math_atan2, rt_round = py_round \<rparr>"

fun to_float_rt :: "runtime \<Rightarrow> pyval \<Rightarrow> pyerr + real" where
  "to_float_rt rt PNone = Inl TypeError"
| "to_float_rt rt (PBool b) = Inr (if b then 1 else 0)"
| "to_float_rt rt (PInt i) = Inr (rt_float_of_int rt i)"
| "to_float_rt rt (PFloat r) = Inr r"
| "to_float_rt rt (PStr s) =
     (case rt_float_of_str rt s of None \<Rightarrow> Inl ValueError | Some r \<Rightarrow> Inr r)"
| "to_float_rt rt (PObjectId h) = Inl TypeError"
| "to_float_rt rt (PDatetime s) = Inl TypeError"
| "to_float_rt rt (PList vs) = Inl TypeError"
| "to_float_rt rt (PDict kvs) = Inl TypeError"

fun val_lower_rt :: "runtime \<Rightarrow> pyval \<Rightarrow> pyerr + string" where
  "val_lower_rt rt (PStr s) = Inr (rt_lower rt s)"
| "val_lower_rt rt v = Inl AttributeError"

subsection \<open>Diversion aggregator\<close>

definition stats_step_rt :: "runtime \<Rightarrow> nat \<times> real \<Rightarrow> doc \<Rightarrow> pyerr + nat \<times> real" where
  "stats_step_rt rt st it =
     (case val_lower_rt rt (unit_val it) of
        Inl e \<Rightarrow> Inl e
      | Inr unit \<Rightarrow>
          (case to_float_rt rt (qty_val it) of
             Inl e \<Rightarrow> Inl e
           | Inr f \<Rightarrow>
               (let kg = (if unit \<in> set [''kg'', ''kilo'', ''kilogram'', ''kilograms'']
                          then rt_add rt (snd st) f
                          else if unit \<in> set [''g'', ''gram'', ''grams'']
                          then rt_add rt (snd st) (rt_div rt f 1000)
                          else if unit \<in> set [''lb'', ''lbs'', ''pound'', ''pounds'']
                          then rt_add rt (snd st) (rt_mul rt f (rt_lit rt 0.453592))
                          else rt_add rt (snd st) (rt_mul rt f (rt_lit rt 0.2)));
                    helped = (if dict_get_default it ''available'' (PBool True) = PBool False
                              then fst st + 1 else fst st)
                in Inr (helped, kg))))"

fun stats_loop_rt :: "runtime \<Rightarrow> nat \<times> real \<Rightarrow> doc list \<Rightarrow> pyerr + nat \<times> real" where
  "stats_loop_rt rt st [] = Inr st"
| "stats_loop_rt rt st (it # items) =
     (case stats_step_rt rt st it of
        Inl e \<Rightarrow> Inl e
      | Inr st' \<Rightarrow> stats_loop_rt rt st' items)"

definition user_stats_rt :: "runtime \<Rightarrow> doc list \<Rightarrow> pyerr + stats" where
  "user_stats_rt rt items =
     (case stats_loop_rt rt (0, 0) items of
        Inl e \<Rightarrow> Inl e
      | Inr st \<Rightarrow>
          Inr \<lparr> items_shared = length items, people_helped = fst st,
                kilograms_diverted = rt_round rt (snd st) 2 \<rparr>)"

text \<open>
  What the aggregation computes, item by item: whether an item goes through the conversions,
  its unit after \<^verbatim>\<open>.lower()\<close>, its quantity after \<^verbatim>\<open>float\<close>, and the kilograms it adds to
  the running total.
\<close>

definition convertible_rt :: "runtime \<Rightarrow> doc \<Rightarrow> bool" where
  "convertible_rt rt it =
     (case val_lower_rt rt (unit_val it) of
        Inl e \<Rightarrow> False
      | Inr u \<Rightarrow> (case to_float_rt rt (qty_val it) of Inl e \<Rightarrow> False | Inr f \<Rightarrow> True))"

definition unit_of_rt :: "runtime \<Rightarrow> doc \<Rightarrow> string" where
  "unit_of_rt rt it = (case val_lower_rt rt (unit_val it) of Inl e \<Rightarrow> [] | Inr u \<Rightarrow> u)"

definition qty_of_rt :: "runtime \<Rightarrow> doc \<Rightarrow> real" where
  "qty_of_rt rt it = (case to_float_rt rt (qty_val it) of Inl e \<Rightarrow> 0 | Inr f \<Rightarrow> f)"

definition item_kg_rt :: "runtime \<Rightarrow> doc \<Rightarrow> real" where
  "item_kg_rt rt it =
     (if unit_of_rt rt it \<in> set [''kg'', ''kilo'', ''kilogram'', ''kilograms'']
      then qty_of_rt rt it
      else if unit_of_rt rt it \<in> set [''g'', ''gram'', ''grams'']
      then rt_div rt (qty_of_rt rt it) 1000
      else if unit_of_rt rt it \<in> set [''lb'', ''lbs'', ''pound'', ''pounds'']
      then rt_mul rt (qty_of_rt rt it) (rt_lit rt 0.453592)
      else rt_mul rt (qty_of_rt rt it) (rt_lit rt 0.2))"

text \<open>The running total: from \<open>0.0\<close>, one addition of the runtime for each item, in order.\<close>

definition kg_total_rt :: "runtime \<Rightarrow> doc list \<Rightarrow> real" where
  "kg_total_rt rt items = foldl (\<lambda>acc it. rt_add rt acc (item_kg_rt rt it)) 0 items"

subsection \<open>Geo distance and proximity search\<close>

definition haversine_rt :: "runtime \<Rightarrow> real \<Rightarrow> real \<Rightarrow> real \<Rightarrow> real \<Rightarrow> pyerr + real" where
  "haversine_rt rt lat1 lon1 lat2 lon2 =
     (let dlat = rt_radians rt (rt_sub rt lat2 lat1);
          dlon = rt_radians rt (rt_sub rt lon2 lon1);
          a = rt_add rt (rt_pow rt (rt_sin rt (rt_div rt dlat 2)) 2)
                (rt_mul rt
                   (rt_mul rt (rt_cos rt (rt_radians rt lat1)) (rt_cos rt (rt_radians rt lat2)))
                   (rt_pow rt (rt_sin rt (rt_div rt dlon 2)) 2))
      in if a < 0 then Inl ValueError
         else if rt_sub rt 1 a < 0 then Inl ValueError
         else Inr (rt_mul rt 6371
                     (rt_mul rt 2 (rt_atan2 rt (rt_sqrt rt a) (rt_sqrt rt (rt_sub rt 1 a))))))"

definition try_dist_rt :: "runtime \<Rightarrow> real \<Rightarrow> real \<Rightarrow> doc \<Rightarrow> pyerr + real" where
  "try_dist_rt rt lat lng d_ser =
     (case to_float_rt rt (dict_get d_ser ''location_lat'') of
        Inl e \<Rightarrow> Inl e
      | Inr la \<Rightarrow>
          (case to_float_rt rt (dict_get d_ser ''location_lng'') of
             Inl e \<Rightarrow> Inl e
           | Inr lo \<Rightarrow> haversine_rt rt lat lng la lo))"

definition item_dist_rt :: "runtime \<Rightarrow> real \<Rightarrow> real \<Rightarrow> doc \<Rightarrow> pyval" where
  "item_dist_rt rt lat lng d_ser =
     (case try_dist_rt rt lat lng d_ser of Inl e \<Rightarrow> PInt 9999 | Inr x \<Rightarrow> PFloat x)"

fun round_val_rt :: "runtime \<Rightarrow> pyval \<Rightarrow> nat \<Rightarrow> pyval" where
  "round_val_rt rt (PFloat r) ndigits = PFloat (rt_round rt r ndigits)"
| "round_val_rt rt v ndigits = v"



text \<open>
  What the search computes, document by document: the distance the search assigns (the value
  of \<^verbatim>\<open>_haversine_km\<close>, or 9999 when the \<^verbatim>\<open>try\<close> raises), the serialized document with its
  \<open>distance_km\<close>, and whether the document is retained.
\<close>

definition search_dist_rt :: "runtime \<Rightarrow> real \<Rightarrow> real \<Rightarrow> doc \<Rightarrow> real" where
  "search_dist_rt rt lat lng d = num_val (item_dist_rt rt lat lng (serialize_doc d))"

definition annotate_rt :: "runtime \<Rightarrow> real \<Rightarrow> real \<Rightarrow> doc \<Rightarrow> doc" where
  "annotate_rt rt lat lng d =
     AList.update ''distance_km'' (round_val_rt rt (item_dist_rt rt lat lng (serialize_doc d)) 2)
       (serialize_doc d)"

definition retained_rt :: "runtime \<Rightarrow> real \<Rightarrow> real \<Rightarrow> real \<Rightarrow> doc \<Rightarrow> bool" where
  "retained_rt rt lat lng radius_km d =
     (search_dist_rt rt lat lng d \<le> radius_km \<and> item_available d)"


section \<open>Properties of the suggestion engine\<close>

lemma no_float_None [simp]: "no_float s = None"
  by (simp add: no_float_def)

lemmas tipdefs = tip_banana_def tip_bread_def tip_rice_def tip_gulay_def tip_jars_def tip_donate_def tip_fallback_def
lemmas recdefs = recipe_banana_bread_def recipe_smoothie_def recipe_maruya_def recipe_french_toast_def
  recipe_bread_pudding_def recipe_sinangag_def recipe_arroz_caldo_def recipe_stir_fry_def recipe_pickled_def recipe_fallback_def

lemma distinct_all_tips: "distinct all_tips"
  by (simp add: all_tips_def tipdefs)
lemma distinct_all_recipes: "distinct all_recipes"
  by (simp add: all_recipes_def recdefs)

lemma tips_neq:
  "distinct [tip_banana, tip_bread, tip_rice, tip_gulay, tip_jars, tip_donate, tip_fallback]"
  "distinct [tip_fallback, tip_donate, tip_jars, tip_gulay, tip_rice, tip_bread, tip_banana]"
proof -
  show "distinct [tip_banana, tip_bread, tip_rice, tip_gulay, tip_jars, tip_donate, tip_fallback]"
    using distinct_all_tips unfolding all_tips_def .
  then have "distinct (rev [tip_banana, tip_bread, tip_rice, tip_gulay, tip_jars, tip_donate, tip_fallback])"
    by (simp only: distinct_rev)
  then show "distinct [tip_fallback, tip_donate, tip_jars, tip_gulay, tip_rice, tip_bread, tip_banana]"
    by (simp only: rev.simps append.simps)
qed

lemmas tneq = tips_neq[simplified]

lemmas rule_defs = banana_rule_def bread_rule_def rice_rule_def gulay_rule_def household_rule_def
  fallback_rule_def

lemma fst_add [simp]: "fst (add_tip t st) = add_new t (fst st)" "fst (add_recipe r st) = fst st"
  by (simp_all add: add_tip_def add_recipe_def)
lemma snd_add [simp]: "snd (add_tip t st) = snd st" "snd (add_recipe r st) = add_new r (snd st)"
  by (simp_all add: add_tip_def add_recipe_def)

lemma fst_rules:
  "fst (banana_rule text st) = (if banana_fires text then add_new tip_banana (fst st) else fst st)"
  "fst (bread_rule text st) = (if bread_fires text then add_new tip_bread (fst st) else fst st)"
  "fst (rice_rule text st) = (if rice_fires text then add_new tip_rice (fst st) else fst st)"
  "fst (gulay_rule text st) = (if gulay_fires text then add_new tip_gulay (fst st) else fst st)"
  "fst (household_rule category st) =
     (if household_fires category then add_new tip_donate (add_new tip_jars (fst st)) else fst st)"
  by (simp_all add: rule_defs)

lemma snd_rules:
  "snd (banana_rule text st) =
     (if banana_fires text
      then add_new recipe_maruya (add_new recipe_smoothie (add_new recipe_banana_bread (snd st)))
      else snd st)"
  "snd (bread_rule text st) =
     (if bread_fires text
      then add_new recipe_bread_pudding (add_new recipe_french_toast (snd st)) else snd st)"
  "snd (rice_rule text st) =
     (if rice_fires text
      then add_new recipe_arroz_caldo (add_new recipe_sinangag (snd st)) else snd st)"
  "snd (gulay_rule text st) =
     (if gulay_fires text
      then add_new recipe_pickled (add_new recipe_stir_fry (snd st)) else snd st)"
  "snd (household_rule category st) = snd st"
  by (simp_all add: rule_defs)

lemma fallback_fst:
  "fst (fallback_rule st) = (if fst st = [] \<and> snd st = [] then [tip_fallback] else fst st)"
  by (simp add: fallback_rule_def add_new_def)

lemma fallback_snd:
  "snd (fallback_rule st) = (if fst st = [] \<and> snd st = [] then [recipe_fallback] else snd st)"
  by (simp add: fallback_rule_def add_new_def)

lemma run_fst:
  "fst (household_rule category (gulay_rule text (rice_rule text
          (bread_rule text (banana_rule text ([], [])))))) = rule_tips text category"
  by (cases "banana_fires text"; cases "bread_fires text"; cases "rice_fires text";
      cases "gulay_fires text"; cases "household_fires category";
      simp add: fst_rules rule_tips_def add_new_def tneq)

lemma recipes_neq:
  "distinct [recipe_banana_bread, recipe_smoothie, recipe_maruya, recipe_french_toast,
     recipe_bread_pudding, recipe_sinangag, recipe_arroz_caldo, recipe_stir_fry, recipe_pickled,
     recipe_fallback]"
  "distinct [recipe_fallback, recipe_pickled, recipe_stir_fry, recipe_arroz_caldo,
     recipe_sinangag, recipe_bread_pudding, recipe_french_toast, recipe_maruya, recipe_smoothie,
     recipe_banana_bread]"
proof -
  show a: "distinct [recipe_banana_bread, recipe_smoothie, recipe_maruya, recipe_french_toast,
     recipe_bread_pudding, recipe_sinangag, recipe_arroz_caldo, recipe_stir_fry, recipe_pickled,
     recipe_fallback]"
    using distinct_all_recipes unfolding all_recipes_def .
  have "distinct (rev [recipe_banana_bread, recipe_smoothie, recipe_maruya, recipe_french_toast,
     recipe_bread_pudding, recipe_sinangag, recipe_arroz_caldo, recipe_stir_fry, recipe_pickled,
     recipe_fallback])"
    using a by (simp only: distinct_rev)
  then show "distinct [recipe_fallback, recipe_pickled, recipe_stir_fry, recipe_arroz_caldo,
     recipe_sinangag, recipe_bread_pudding, recipe_french_toast, recipe_maruya, recipe_smoothie,
     recipe_banana_bread]"
    by (simp only: rev.simps append.simps)
qed

lemmas rneq = recipes_neq[simplified]

lemma run_snd:
  "snd (household_rule category (gulay_rule text (rice_rule text
          (bread_rule text (banana_rule text ([], [])))))) = rule_recipes text"
  by (cases "banana_fires text"; cases "bread_fires text"; cases "rice_fires text";
      cases "gulay_fires text";
      simp add: snd_rules rule_recipes_def add_new_def rneq)

lemma rule_tips_Nil: "(rule_tips text category = []) = (\<not> any_fires text category)"
  by (simp add: rule_tips_def any_fires_def)

lemma rule_recipes_Nil_if: "\<not> any_fires text category \<Longrightarrow> rule_recipes text = []"
  by (simp add: rule_recipes_def any_fires_def)

lemma tips_closed:
  "tips (generate_tipid_suggestions title description category) =
     (if any_fires (suggestion_text title description) category
      then rule_tips (suggestion_text title description) category else [tip_fallback])"
  using rule_tips_Nil[of "suggestion_text title description" category]
    rule_recipes_Nil_if[of "suggestion_text title description" category]
  by (simp add: generate_tipid_suggestions_def Let_def fallback_fst run_fst run_snd)

lemma recipes_closed:
  "recipes (generate_tipid_suggestions title description category) =
     (if any_fires (suggestion_text title description) category
      then rule_recipes (suggestion_text title description) else [recipe_fallback])"
  using rule_tips_Nil[of "suggestion_text title description" category]
    rule_recipes_Nil_if[of "suggestion_text title description" category]
  by (simp add: generate_tipid_suggestions_def Let_def fallback_snd run_fst run_snd)

lemma distinct_rule_tips: "distinct (rule_tips text category)"
  by (cases "banana_fires text"; cases "bread_fires text"; cases "rice_fires text";
      cases "gulay_fires text"; cases "household_fires category";
      simp add: rule_tips_def tneq)

lemma distinct_rule_recipes: "distinct (rule_recipes text)"
  by (cases "banana_fires text"; cases "bread_fires text"; cases "rice_fires text";
      cases "gulay_fires text"; simp add: rule_recipes_def rneq)

lemma fallback_notin_rule_tips: "tip_fallback \<notin> set (rule_tips text category)"
  by (simp add: rule_tips_def tneq)

lemma fallback_notin_rule_recipes: "recipe_fallback \<notin> set (rule_recipes text)"
  by (simp add: rule_recipes_def rneq)

text \<open>
  Claim C7. For every title, description and category the lists \<open>tips\<close> and \<open>recipes\<close> hold
  no string twice and are in first-seen order: they are what the rules that fire contribute, in
  the order of the rules, several rules firing on one input. For the title
  \<open>Overripe bananas\<close> with no description and no category the tips are the freeze-banana tip
  once and the recipes are the three banana recipes; \<open>banana\<close> in both title and description
  adds nothing twice.
\<close>

theorem suggestions_unique_in_rule_order:
  "distinct (tips (generate_tipid_suggestions title description category))
   \<and> distinct (recipes (generate_tipid_suggestions title description category))
   \<and> tips (generate_tipid_suggestions title description category) =
       (if any_fires (suggestion_text title description) category
        then rule_tips (suggestion_text title description) category else [tip_fallback])
   \<and> recipes (generate_tipid_suggestions title description category) =
       (if any_fires (suggestion_text title description) category
        then rule_recipes (suggestion_text title description) else [recipe_fallback])
   \<and> tips (generate_tipid_suggestions ''Overripe bananas'' None None) = [tip_banana]
   \<and> recipes (generate_tipid_suggestions ''Overripe bananas'' None None) =
       [recipe_banana_bread, recipe_smoothie, recipe_maruya]
   \<and> tips (generate_tipid_suggestions ''Banana'' (Some ''ripe banana and rice'') None) =
       [tip_banana, tip_rice]
   \<and> recipes (generate_tipid_suggestions ''Banana'' (Some ''ripe banana and rice'') None) =
       [recipe_banana_bread, recipe_smoothie, recipe_maruya, recipe_sinangag, recipe_arroz_caldo]"
proof -
  have a: "distinct (tips (generate_tipid_suggestions title description category))"
    by (simp add: tips_closed distinct_rule_tips)
  have b: "distinct (recipes (generate_tipid_suggestions title description category))"
    by (simp add: recipes_closed distinct_rule_recipes)
  have c: "tips (generate_tipid_suggestions ''Overripe bananas'' None None) = [tip_banana]"
    by code_simp
  have d: "recipes (generate_tipid_suggestions ''Overripe bananas'' None None) =
       [recipe_banana_bread, recipe_smoothie, recipe_maruya]"
    by code_simp
  have e: "tips (generate_tipid_suggestions ''Banana'' (Some ''ripe banana and rice'') None) =
       [tip_banana, tip_rice]"
    by code_simp
  have f: "recipes (generate_tipid_suggestions ''Banana'' (Some ''ripe banana and rice'') None) =
       [recipe_banana_bread, recipe_smoothie, recipe_maruya, recipe_sinangag, recipe_arroz_caldo]"
    by code_simp
  show ?thesis
    using a b c d e f tips_closed[of title description category]
      recipes_closed[of title description category] by (simp only: simp_thms)
qed

text \<open>The substring test is the one of the library.\<close>

lemma str_in_sublist: "str_in sub t = sublist sub t"
  by (induction t) (simp_all add: sublist_Cons_right)

lemma jars_in_rule_tips:
  "(tip_jars \<in> set (rule_tips text category)) = household_fires category"
  "(tip_donate \<in> set (rule_tips text category)) = household_fires category"
  by (simp_all add: rule_tips_def tneq)

text \<open>
  Claim C8. The suggestion engine has no failing branch, and it gives the one fallback tip and the
  one fallback recipe exactly when no keyword rule and no category rule fires, which is when both
  accumulated lists are empty; so it does for a text without keyword and the category \<open>food\<close>,
  and for empty strings.
\<close>

theorem fallback_iff_no_rule_fired:
  "((tips (generate_tipid_suggestions title description category) = [tip_fallback]
      \<and> recipes (generate_tipid_suggestions title description category) = [recipe_fallback])
     = (\<not> any_fires (suggestion_text title description) category))
   \<and> (tip_fallback \<in> set (tips (generate_tipid_suggestions title description category)))
     = (\<not> any_fires (suggestion_text title description) category)
   \<and> (recipe_fallback \<in> set (recipes (generate_tipid_suggestions title description category)))
     = (\<not> any_fires (suggestion_text title description) category)
   \<and> (\<not> any_fires (suggestion_text title description) category)
     = (rule_tips (suggestion_text title description) category = []
        \<and> rule_recipes (suggestion_text title description) = [])
   \<and> tips (generate_tipid_suggestions ''Old shoes'' None (Some ''food'')) = [tip_fallback]
   \<and> recipes (generate_tipid_suggestions ''Old shoes'' None (Some ''food'')) = [recipe_fallback]
   \<and> tips (generate_tipid_suggestions [] (Some []) (Some [])) = [tip_fallback]
   \<and> recipes (generate_tipid_suggestions [] (Some []) (Some [])) = [recipe_fallback]"
proof -
  let ?t = "suggestion_text title description"
  let ?m = "generate_tipid_suggestions title description category"
  have a: "(tip_fallback \<in> set (tips ?m)) = (\<not> any_fires ?t category)"
    by (simp add: tips_closed fallback_notin_rule_tips)
  have b: "(recipe_fallback \<in> set (recipes ?m)) = (\<not> any_fires ?t category)"
    by (simp add: recipes_closed fallback_notin_rule_recipes)
  have c: "(tips ?m = [tip_fallback] \<and> recipes ?m = [recipe_fallback])
             = (\<not> any_fires ?t category)"
  proof (cases "any_fires ?t category")
    case True
    then have "tip_fallback \<notin> set (tips ?m)" using a by simp
    then have "tips ?m \<noteq> [tip_fallback]" by auto
    with True show ?thesis by simp
  next
    case False
    then show ?thesis by (simp add: tips_closed recipes_closed)
  qed
  have d: "(\<not> any_fires ?t category) = (rule_tips ?t category = [] \<and> rule_recipes ?t = [])"
    using rule_tips_Nil[of ?t category] rule_recipes_Nil_if[of ?t category] by auto
  have e: "tips (generate_tipid_suggestions ''Old shoes'' None (Some ''food'')) = [tip_fallback]"
    by code_simp
  have f: "recipes (generate_tipid_suggestions ''Old shoes'' None (Some ''food''))
             = [recipe_fallback]"
    by code_simp
  have g: "tips (generate_tipid_suggestions [] (Some []) (Some [])) = [tip_fallback]"
    by code_simp
  have h: "recipes (generate_tipid_suggestions [] (Some []) (Some [])) = [recipe_fallback]"
    by code_simp
  show ?thesis using a b c d e f g h by (simp only: simp_thms)
qed

text \<open>
  Claim C10. The household tips are added exactly when the category is the string
  \<open>household\<close> in lower case; with any other category (such as \<open>Household\<close>) and a text
  that matches no keyword, the result is the fallback tip and the fallback recipe.
\<close>

theorem household_rule_exact_match:
  "(tip_jars \<in> set (tips (generate_tipid_suggestions title description category)))
     = (category = Some ''household'')
   \<and> (tip_donate \<in> set (tips (generate_tipid_suggestions title description category)))
     = (category = Some ''household'')
   \<and> (category \<noteq> Some ''household''
        \<and> \<not> banana_fires (suggestion_text title description)
        \<and> \<not> bread_fires (suggestion_text title description)
        \<and> \<not> rice_fires (suggestion_text title description)
        \<and> \<not> gulay_fires (suggestion_text title description)
      \<longrightarrow> tips (generate_tipid_suggestions title description category) = [tip_fallback]
          \<and> recipes (generate_tipid_suggestions title description category)
              = [recipe_fallback])"
proof -
  let ?t = "suggestion_text title description"
  let ?m = "generate_tipid_suggestions title description category"
  have hh: "household_fires category \<Longrightarrow> any_fires ?t category"
    by (simp add: any_fires_def)
  have a: "(tip_jars \<in> set (tips ?m)) = (category = Some ''household'')"
    using hh by (auto simp add: tips_closed jars_in_rule_tips household_fires_def tneq)
  have b: "(tip_donate \<in> set (tips ?m)) = (category = Some ''household'')"
    using hh by (auto simp add: tips_closed jars_in_rule_tips household_fires_def tneq)
  have c: "category \<noteq> Some ''household''
        \<and> \<not> banana_fires ?t \<and> \<not> bread_fires ?t \<and> \<not> rice_fires ?t \<and> \<not> gulay_fires ?t
      \<longrightarrow> tips ?m = [tip_fallback] \<and> recipes ?m = [recipe_fallback]"
    by (simp add: tips_closed recipes_closed any_fires_def household_fires_def)
  show ?thesis using a b c by (simp only: simp_thms)
qed

theorem household_rule_exact_match_witness:
  "Some ''Household'' \<noteq> Some ''household''
   \<and> \<not> banana_fires (suggestion_text ''Old shoes'' None)
   \<and> \<not> bread_fires (suggestion_text ''Old shoes'' None)
   \<and> \<not> rice_fires (suggestion_text ''Old shoes'' None)
   \<and> \<not> gulay_fires (suggestion_text ''Old shoes'' None)
   \<and> tips (generate_tipid_suggestions ''Old shoes'' None (Some ''Household'')) = [tip_fallback]
   \<and> recipes (generate_tipid_suggestions ''Old shoes'' None (Some ''Household''))
       = [recipe_fallback]
   \<and> tip_jars \<notin> set (tips (generate_tipid_suggestions ''Old shoes'' None (Some ''Household'')))"
proof -
  have t: "suggestion_text ''Old shoes'' None = ''old shoes ''"
    by code_simp
  have h: "Some ''Household'' \<noteq> Some ''household''"
    "\<not> banana_fires (suggestion_text ''Old shoes'' None)"
    "\<not> bread_fires (suggestion_text ''Old shoes'' None)"
    "\<not> rice_fires (suggestion_text ''Old shoes'' None)"
    "\<not> gulay_fires (suggestion_text ''Old shoes'' None)"
    by (simp_all add: t banana_fires_def bread_fires_def rice_fires_def gulay_fires_def)
  show ?thesis
    using h household_rule_exact_match[of "''Old shoes''" None "Some ''Household''"]
    by (simp add: tneq)
qed

section \<open>Properties of the diversion aggregator\<close>

lemma stats_step_conv:
  "stats_step sf st it =
     (if convertible sf it
      then Inr (if claimed it then fst st + 1 else fst st, snd st + item_kg sf it)
      else Inl (case val_lower (unit_val it) of Inl e \<Rightarrow> e
                | Inr u \<Rightarrow> (case to_float sf (qty_val it) of Inl e \<Rightarrow> e | Inr f \<Rightarrow> ValueError)))"
  by (simp add: stats_step_def convertible_def claimed_def item_kg_def qty_of_def unit_of_def
        unit_factor_def Let_def split: sum.splits)

lemma stats_loop_ok:
  "list_all (convertible sf) items \<Longrightarrow>
   stats_loop sf st items =
     Inr (fst st + length (filter claimed items), snd st + sum_list (map (item_kg sf) items))"
  by (induction items arbitrary: st) (simp_all add: stats_step_conv)

lemma stats_loop_err:
  "\<not> list_all (convertible sf) items \<Longrightarrow> \<exists>e. stats_loop sf st items = Inl e"
  by (induction items arbitrary: st) (auto simp add: stats_step_conv)

lemma user_stats_ok:
  "list_all (convertible sf) items \<Longrightarrow>
   user_stats sf items =
     Inr \<lparr> items_shared = length items, people_helped = length (filter claimed items),
           kilograms_diverted = py_round (sum_list (map (item_kg sf) items)) 2 \<rparr>"
  by (simp add: user_stats_def stats_loop_ok)

lemma user_stats_err:
  "\<not> list_all (convertible sf) items \<Longrightarrow> \<exists>e. user_stats sf items = Inl e"
  using stats_loop_err[of sf items "(0, 0)"] by (auto simp add: user_stats_def)

lemma round_half_even_nonneg: "0 \<le> x \<Longrightarrow> 0 \<le> round_half_even x"
  by (simp add: round_half_even_def Let_def)

lemma py_round_nonneg: "0 \<le> x \<Longrightarrow> 0 \<le> py_round x n"
  by (simp add: py_round_def round_half_even_nonneg)

lemma round_half_even_of_int: "round_half_even (of_int k) = k"
  by (simp add: round_half_even_def)

lemma unit_factor_nonneg: "0 \<le> unit_factor u"
  by (simp add: unit_factor_def)

lemma sum_item_kg_nonneg:
  "list_all (\<lambda>it. 0 \<le> qty_of sf it) items \<Longrightarrow> 0 \<le> sum_list (map (item_kg sf) items)"
  by (induction items) (simp_all add: item_kg_def unit_factor_nonneg)

lemma qty_absent: "map_of it ''quantity'' = None \<Longrightarrow> qty_of sf it = 0"
  by (simp add: qty_of_def qty_val_def dict_get_def)

lemma unit_absent: "map_of it ''unit'' = None \<Longrightarrow> unit_of it = []"
  by (simp add: unit_of_def unit_val_def dict_get_def lower_def)

lemma unit_str: "map_of it ''unit'' = Some (PStr s) \<Longrightarrow> unit_of it = lower s"
  by (simp add: unit_of_def unit_val_def dict_get_def lower_def)

lemma ex_conv:
  "convertible sf [(''quantity'', PInt 2), (''unit'', PStr ''kg''), (''available'', PBool True)]"
  "convertible sf [(''quantity'', PInt 500), (''unit'', PStr ''g''), (''available'', PBool False)]"
  by (simp_all add: convertible_def unit_val_def qty_val_def dict_get_def)

lemma lower_kg: "lower ''kg'' = ''kg''" "lower ''g'' = ''g''" "lower '' kg'' = '' kg''"
  by code_simp+

lemma ex_kg:
  "item_kg sf [(''quantity'', PInt 2), (''unit'', PStr ''kg''), (''available'', PBool True)] = 2"
  "item_kg sf [(''quantity'', PInt 500), (''unit'', PStr ''g''), (''available'', PBool False)] = 1/2"
  by (simp_all add: item_kg_def qty_of_def unit_of_def unit_val_def qty_val_def dict_get_def
        unit_factor_def lower_kg)

lemma ex_claimed:
  "\<not> claimed [(''quantity'', PInt 2), (''unit'', PStr ''kg''), (''available'', PBool True)]"
  "claimed [(''quantity'', PInt 500), (''unit'', PStr ''g''), (''available'', PBool False)]"
  by (simp_all add: claimed_def dict_get_default_def)

lemma py_round_5_2: "py_round (5/2) 2 = 5/2"
  using round_half_even_of_int[of 250] by (simp add: py_round_def)

lemma ex_stats:
  "user_stats sf
     [[(''quantity'', PInt 2), (''unit'', PStr ''kg''), (''available'', PBool True)],
      [(''quantity'', PInt 500), (''unit'', PStr ''g''), (''available'', PBool False)]]
   = Inr \<lparr> items_shared = 2, people_helped = 1, kilograms_diverted = 5/2 \<rparr>"
  by (simp add: user_stats_ok ex_conv ex_kg ex_claimed py_round_5_2)

lemma py_round_of_int_div: "py_round (of_int k / 100) 2 = of_int k / 100"
  using round_half_even_of_int[of k] by (simp add: py_round_def)

text \<open>
  Claim C1, as stated, fails: a quantity that \<^verbatim>\<open>float\<close> rejects (a list, or the string
  \<open>abc\<close> under a parser that rejects it) makes \<^verbatim>\<open>user_stats\<close> raise; the item does not
  count as 0 kilograms, and a well-formed item after it is never reached.
\<close>

theorem user_stats_raises_on_bad_quantity:
  "user_stats no_float [[(''quantity'', PList [PStr ''abc'']), (''unit'', PStr ''kg'')]]
     = Inl TypeError
   \<and> user_stats no_float [[(''quantity'', PStr ''abc''), (''unit'', PStr ''kg'')]]
       = Inl ValueError
   \<and> user_stats no_float
         [[(''quantity'', PStr ''abc''), (''unit'', PStr ''kg'')],
          [(''quantity'', PInt 2), (''unit'', PStr ''kg'')]]
       = Inl ValueError"
  by (simp add: user_stats_def stats_step_def unit_val_def qty_val_def dict_get_def)

text \<open>
  Claim C1, amended. \<^verbatim>\<open>user_stats\<close> returns a result exactly when every item goes through
  the conversions (its unit absent, falsy or a string; its quantity absent, falsy or accepted by
  \<^verbatim>\<open>float\<close>), and raises otherwise. A quantity that is absent or falsy contributes
  0 kilograms; a quantity that \<^verbatim>\<open>float\<close> rejects makes its item not convertible.
\<close>

theorem user_stats_completes_iff_convertible:
  "((\<exists>r. user_stats sf items = Inr r) = list_all (convertible sf) items)
   \<and> ((\<exists>e. user_stats sf items = Inl e) = (\<not> list_all (convertible sf) items))
   \<and> (\<not> truthy (dict_get it ''quantity'') \<longrightarrow> qty_of sf it = 0 \<and> item_kg sf it = 0)
   \<and> (to_float sf (qty_val it') = Inl e' \<longrightarrow> \<not> convertible sf it')"
proof -
  have a: "(\<exists>r. user_stats sf items = Inr r) = list_all (convertible sf) items"
    using user_stats_ok[of sf items] user_stats_err[of sf items]
    by (cases "list_all (convertible sf) items") auto
  have b: "(\<exists>e. user_stats sf items = Inl e) = (\<not> list_all (convertible sf) items)"
    using user_stats_ok[of sf items] user_stats_err[of sf items]
    by (cases "list_all (convertible sf) items") auto
  have c: "\<not> truthy (dict_get it ''quantity'') \<longrightarrow> qty_of sf it = 0 \<and> item_kg sf it = 0"
    by (simp add: item_kg_def qty_of_def qty_val_def)
  have d: "to_float sf (qty_val it') = Inl e' \<longrightarrow> \<not> convertible sf it'"
    by (simp add: convertible_def split: sum.splits)
  show ?thesis using a b c d by (simp only: simp_thms)
qed

theorem user_stats_completes_iff_convertible_witness:
  "list_all (convertible no_float) [[(''unit'', PStr ''kg'')]]
   \<and> (\<exists>r. user_stats no_float [[(''unit'', PStr ''kg'')]] = Inr r)
   \<and> \<not> truthy (dict_get [(''unit'', PStr ''kg'')] ''quantity'')
   \<and> item_kg no_float [(''unit'', PStr ''kg'')] = 0
   \<and> to_float no_float (qty_val [(''quantity'', PStr ''abc'')]) = Inl ValueError
   \<and> \<not> convertible no_float [(''quantity'', PStr ''abc'')]"
proof -
  have h1: "list_all (convertible no_float) [[(''unit'', PStr ''kg'')]]"
    by (simp add: convertible_def unit_val_def qty_val_def dict_get_def)
  have h2: "\<not> truthy (dict_get [(''unit'', PStr ''kg'')] ''quantity'')"
    by (simp add: dict_get_def)
  have h3: "to_float no_float (qty_val [(''quantity'', PStr ''abc'')]) = Inl ValueError"
    by (simp add: qty_val_def dict_get_def)
  show ?thesis
    using h1 h2 h3
      user_stats_completes_iff_convertible[of no_float "[[(''unit'', PStr ''kg'')]]" "[(''unit'', PStr ''kg'')]"
         "[(''quantity'', PStr ''abc'')]" ValueError]
    by simp
qed

text \<open>
  Claim C2, as stated, fails: the unit is lower-cased but not trimmed. One item of quantity 1
  and unit \<open>kg\<close> after a blank gives 0.2 kilograms, where the trimmed unit would give 1.
\<close>

theorem user_stats_unit_not_trimmed:
  "user_stats no_float [[(''quantity'', PInt 1), (''unit'', PStr '' kg'')]]
     = Inr \<lparr> items_shared = 1, people_helped = 0, kilograms_diverted = 1 / 5 \<rparr>
   \<and> py_round (sum_list (map (spec_item_kg no_float)
         [[(''quantity'', PInt 1), (''unit'', PStr '' kg'')]])) 2 = 1"
proof -
  let ?it = "[(''quantity'', PInt 1), (''unit'', PStr '' kg'')]"
  have u: "unit_of ?it = '' kg''"
    by (simp add: unit_str lower_kg)
  have s: "strip '' kg'' = ''kg''"
    by (simp add: strip_def is_space_def)
  have q: "qty_of sf ?it = 1" for sf
    by (simp add: qty_of_def qty_val_def dict_get_def)
  have c: "convertible sf ?it" for sf
    by (simp add: convertible_def unit_val_def qty_val_def dict_get_def)
  have k: "item_kg sf ?it = 20 / 100" for sf
    by (simp add: item_kg_def u q unit_factor_def)
  have k': "spec_item_kg sf ?it = 100 / 100" for sf
    by (simp add: spec_item_kg_def u s q unit_factor_def)
  have nc: "\<not> claimed ?it"
    by (simp add: claimed_def dict_get_default_def)
  have r1: "py_round (20 / 100) 2 = 1 / 5"
    using py_round_of_int_div[of 20] by simp
  have r2: "py_round (100 / 100) 2 = 1"
    using py_round_of_int_div[of 100] by simp
  have a: "user_stats sf [?it]
          = Inr \<lparr> items_shared = 1, people_helped = 0, kilograms_diverted = 1 / 5 \<rparr>" for sf
    using user_stats_ok[of sf "[?it]"] c[of sf] r1 by (simp add: k nc)
  have b: "py_round (sum_list (map (spec_item_kg sf) [?it])) 2 = 1" for sf
    using r2 by (simp add: k')
  show ?thesis using a[of no_float] b[of no_float] by (simp only: simp_thms)
qed


text \<open>
  Claim C4, as stated, fails: a negative quantity is summed as it is, so one item of
  \<open>- 5\<close> kg gives \<open>kilograms_diverted = - 5\<close>.
\<close>

theorem kilograms_diverted_negative:
  "user_stats no_float [[(''quantity'', PFloat (- 5)), (''unit'', PStr ''kg'')]]
     = Inr \<lparr> items_shared = 1, people_helped = 0, kilograms_diverted = - 5 \<rparr>
   \<and> \<not> (0 :: real) \<le> - 5"
proof -
  let ?it = "[(''quantity'', PFloat (- 5)), (''unit'', PStr ''kg'')]"
  have c: "convertible sf ?it" for sf
    by (simp add: convertible_def unit_val_def qty_val_def dict_get_def)
  have k: "item_kg sf ?it = of_int (- 500) / 100" for sf
    by (simp add: item_kg_def qty_of_def unit_of_def unit_val_def qty_val_def dict_get_def
          unit_factor_def lower_kg)
  have nc: "\<not> claimed ?it"
    by (simp add: claimed_def dict_get_default_def)
  have r: "py_round (of_int (- 500) / 100) 2 = of_int (- 500) / 100"
    by (rule py_round_of_int_div)
  have "user_stats sf [?it]
          = Inr \<lparr> items_shared = 1, people_helped = 0, kilograms_diverted = - 5 \<rparr>" for sf
    using user_stats_ok[of sf "[?it]"] c[of sf] r by (simp add: k nc)
  from this[of no_float] show ?thesis by simp
qed

text \<open>
  Claim C4, amended. When every item goes through the conversions and no quantity is negative,
  \<^verbatim>\<open>user_stats\<close> returns a result whose \<open>kilograms_diverted\<close> is not negative.
\<close>

theorem kilograms_diverted_nonneg:
  "list_all (convertible sf) items \<Longrightarrow> list_all (\<lambda>it. 0 \<le> qty_of sf it) items \<Longrightarrow>
   \<exists>r. user_stats sf items = Inr r \<and> 0 \<le> kilograms_diverted r"
  by (simp add: user_stats_ok py_round_nonneg sum_item_kg_nonneg)

theorem kilograms_diverted_nonneg_witness:
  "list_all (convertible no_float) [[(''quantity'', PInt 3)], [(''unit'', PStr ''kg'')]]
   \<and> list_all (\<lambda>it. 0 \<le> qty_of no_float it) [[(''quantity'', PInt 3)], [(''unit'', PStr ''kg'')]]
   \<and> (\<exists>r. user_stats no_float [[(''quantity'', PInt 3)], [(''unit'', PStr ''kg'')]] = Inr r
          \<and> 0 \<le> kilograms_diverted r)"
proof -
  have h1: "list_all (convertible no_float) [[(''quantity'', PInt 3)], [(''unit'', PStr ''kg'')]]"
    by (simp add: convertible_def unit_val_def qty_val_def dict_get_def)
  have h2: "list_all (\<lambda>it. 0 \<le> qty_of no_float it)
              [[(''quantity'', PInt 3)], [(''unit'', PStr ''kg'')]]"
    by (simp add: qty_of_def qty_val_def dict_get_def)
  show ?thesis using h1 h2 kilograms_diverted_nonneg[OF h1 h2] by simp
qed

section \<open>Properties of the geo distance over the reals\<close>

text \<open>
  With exact real arithmetic the quantity \<open>a\<close> lies between 0 and 1 for all arguments, so both
  square roots are defined and \<^verbatim>\<open>_haversine_km\<close> returns a distance; the distance does not
  change when the two points are exchanged. The bound \<open>a \<le> 1\<close> is met with equality at
  antipodal points, so these lemmas say nothing about the rounded arithmetic of floats there.
\<close>

lemma sin_half_squared: "(sin (x / 2))\<^sup>2 = (1 - cos x) / 2" for x :: real
  using cos_double_sin[of "x / 2"] by simp

lemma hav_mix:
  fixes u v s :: real
  shows "(sin ((v - u) / 2))\<^sup>2 + cos u * cos v * s
         = (1 - s) * ((1 - cos (v - u)) / 2) + s * ((1 + cos (u + v)) / 2)"
  by (simp add: sin_half_squared cos_add cos_diff field_simps)

lemma hav_a_bounds: "0 \<le> hav_a lat1 lon1 lat2 lon2 \<and> hav_a lat1 lon1 lat2 lon2 \<le> 1"
proof -
  define u where "u = radians lat1"
  define v where "v = radians lat2"
  define s where "s = (sin (radians (lon2 - lon1) / 2))\<^sup>2"
  define A where "A = (1 - cos (v - u)) / 2"
  define B where "B = (1 + cos (u + v)) / 2"
  have r: "radians (lat2 - lat1) = v - u"
    by (simp add: radians_def u_def v_def left_diff_distrib)
  have s01: "0 \<le> s" "s \<le> 1"
    by (simp_all add: s_def abs_square_le_1)
  have "- 1 \<le> cos (v - u)" "cos (v - u) \<le> 1" by simp_all
  then have "0 \<le> 1 - cos (v - u)" "1 - cos (v - u) \<le> 2" by linarith+
  then have A01: "0 \<le> A" "A \<le> 1" by (simp_all add: A_def)
  have "- 1 \<le> cos (u + v)" "cos (u + v) \<le> 1" by simp_all
  then have "0 \<le> 1 + cos (u + v)" "1 + cos (u + v) \<le> 2" by linarith+
  then have B01: "0 \<le> B" "B \<le> 1" by (simp_all add: B_def)
  have a: "hav_a lat1 lon1 lat2 lon2 = (1 - s) * A + s * B"
    unfolding hav_a_def r A_def B_def
    using hav_mix[of v u s] by (simp add: u_def v_def s_def)
  have lo: "0 \<le> (1 - s) * A + s * B"
    using s01 A01 B01 by simp
  have "(1 - s) * A \<le> (1 - s) * 1"
    using s01 A01 by (intro mult_left_mono) simp_all
  moreover have "s * B \<le> s * 1"
    using s01 B01 by (intro mult_left_mono) simp_all
  ultimately have hi: "(1 - s) * A + s * B \<le> 1" by simp
  show ?thesis using a lo hi by simp
qed

lemma haversine_km_hav_a:
  "haversine_km lat1 lon1 lat2 lon2 =
     (case math_sqrt (hav_a lat1 lon1 lat2 lon2) of
        Inl e \<Rightarrow> Inl e
      | Inr sa \<Rightarrow>
          (case math_sqrt (1 - hav_a lat1 lon1 lat2 lon2) of
             Inl e \<Rightarrow> Inl e
           | Inr sb \<Rightarrow> Inr (6371 * (2 * math_atan2 sa sb))))"
  unfolding haversine_km_def hav_a_def Let_def by (rule refl)

lemma haversine_total:
  "haversine_km lat1 lon1 lat2 lon2 =
     Inr (6371 * (2 * math_atan2 (sqrt (hav_a lat1 lon1 lat2 lon2))
                                 (sqrt (1 - hav_a lat1 lon1 lat2 lon2))))"
  using hav_a_bounds[of lat1 lon1 lat2 lon2]
  by (simp add: haversine_km_hav_a math_sqrt_def)

lemma radians_minus: "radians (- x) = - radians x"
  by (simp add: radians_def)

lemma hav_a_sym: "hav_a lat1 lon1 lat2 lon2 = hav_a lat2 lon2 lat1 lon1"
proof -
  have "radians (lat2 - lat1) = - radians (lat1 - lat2)"
       "radians (lon2 - lon1) = - radians (lon1 - lon2)"
    using radians_minus[of "lat1 - lat2"] radians_minus[of "lon1 - lon2"] by simp_all
  then have "radians (lat2 - lat1) / 2 = - (radians (lat1 - lat2) / 2)"
       "radians (lon2 - lon1) / 2 = - (radians (lon1 - lon2) / 2)"
    by simp_all
  then show ?thesis
    unfolding hav_a_def by (simp only: sin_minus power2_minus) simp
qed

lemma haversine_sym: "haversine_km lat1 lon1 lat2 lon2 = haversine_km lat2 lon2 lat1 lon1"
  by (simp only: haversine_total hav_a_sym[of lat1 lon1 lat2 lon2])

section \<open>Properties of the proximity search\<close>

lemma dict_get_default_update_other:
  "k \<noteq> k' \<Longrightarrow> dict_get_default (AList.update k v d) k' dflt = dict_get_default d k' dflt"
  by (simp add: dict_get_default_def update_conv')

lemma dict_get_update_same: "dict_get (AList.update k v d) k = v"
  by (simp add: dict_get_def update_conv')

lemma dict_get_default_update_same: "dict_get_default (AList.update k v d) k dflt = v"
  by (simp add: dict_get_default_def update_conv')

lemma enrich_step_retained:
  "enrich_step sf lat lng r enriched d =
     (if retained sf lat lng r d then enriched @ [annotate sf lat lng d] else enriched)"
  by (simp add: enrich_step_def retained_def annotate_def search_dist_def item_available_def
        Let_def dict_get_default_update_other)

lemma foldl_enrich:
  "foldl (enrich_step sf lat lng r) enriched docs =
     enriched @ map (annotate sf lat lng) (filter (retained sf lat lng r) docs)"
  by (induction docs arbitrary: enriched) (simp_all add: enrich_step_retained)

lemma list_items_sort:
  "list_items sf docs lat lng r =
     sort_key distance_key (map (annotate sf lat lng) (filter (retained sf lat lng r) docs))"
  by (simp add: list_items_def foldl_enrich)

lemma distance_key_annotate:
  "distance_key (annotate sf lat lng d) =
     num_val (round_val (item_dist sf lat lng (serialize_doc d)) 2)"
  by (simp add: distance_key_def annotate_def dict_get_default_update_same)

lemma math_atan2_nonneg: "0 \<le> y \<Longrightarrow> 0 \<le> x \<Longrightarrow> 0 \<le> math_atan2 y x"
  by (simp add: math_atan2_def)

lemma haversine_nonneg: "haversine_km lat1 lon1 lat2 lon2 = Inr h \<Longrightarrow> 0 \<le> h"
  by (auto simp add: haversine_km_def math_sqrt_def Let_def math_atan2_nonneg split: if_splits)

lemma try_dist_nonneg: "try_dist sf lat lng d = Inr h \<Longrightarrow> 0 \<le> h"
  by (auto simp add: try_dist_def haversine_nonneg split: sum.splits)

lemma search_dist_nonneg: "0 \<le> search_dist sf lat lng d"
  by (simp add: search_dist_def item_dist_def try_dist_nonneg split: sum.splits)

lemma sort_key_const:
  assumes "\<And>x. x \<in> set xs \<Longrightarrow> f x = c"
  shows "sort_key f xs = xs"
proof -
  have "filter (\<lambda>y. f y = c) (sort_key f xs) = filter (\<lambda>y. f y = c) xs"
    by (rule sort_key_stable)
  moreover have "filter (\<lambda>y. f y = c) (sort_key f xs) = sort_key f xs"
    using assms by (simp add: filter_id_conv)
  moreover have "filter (\<lambda>y. f y = c) xs = xs"
    using assms by (simp add: filter_id_conv)
  ultimately show ?thesis by simp
qed


lemma serialize_field_update:
  "serialize_field out (k, v) =
     AList.update (if k = ''_id'' then ''id'' else k)
       (if k = ''_id'' then serialize_id v else serialize_val v) out"
  by (cases v) (simp_all add: serialize_field_def serialize_val_def)

lemma map_of_foldl_serialize:
  "k \<noteq> ''_id'' \<Longrightarrow> k \<noteq> ''id'' \<Longrightarrow>
   map_of (foldl serialize_field acc d) k =
     (case map_of (rev d) k of None \<Rightarrow> map_of acc k | Some v \<Rightarrow> Some (serialize_val v))"
proof (induction d arbitrary: acc)
  case Nil
  then show ?case by simp
next
  case (Cons kv d)
  obtain k' v' where kv: "kv = (k', v')" by (cases kv)
  show ?case
    using Cons.prems
    by (auto simp add: Cons.IH kv serialize_field_update update_conv' map_add_def
          split: option.splits)
qed

lemma map_of_rev_distinct: "distinct (map fst xs) \<Longrightarrow> map_of (rev xs) = map_of xs"
proof (induction xs)
  case Nil
  then show ?case by simp
next
  case (Cons kv xs)
  then have n: "map_of xs (fst kv) = None"
    by (simp add: map_of_eq_None_iff)
  show ?case
    using Cons n by (cases kv) (auto simp add: map_add_def fun_eq_iff split: option.splits)
qed

lemma map_of_serialize_doc:
  "distinct (map fst d) \<Longrightarrow> k \<noteq> ''_id'' \<Longrightarrow> k \<noteq> ''id'' \<Longrightarrow>
   map_of (serialize_doc d) k = map_option serialize_val (map_of d k)"
  by (simp add: serialize_doc_def map_of_foldl_serialize map_of_rev_distinct
        split: option.splits)

lemma map_of_serialize_doc_None:
  "k \<noteq> ''_id'' \<Longrightarrow> k \<noteq> ''id'' \<Longrightarrow> map_of d k = None \<Longrightarrow>
   map_of (serialize_doc d) k = None"
proof -
  assume k: "k \<noteq> ''_id''" "k \<noteq> ''id''" and n: "map_of d k = None"
  from n have "map_of (rev d) k = None"
    by (simp add: map_of_eq_None_iff)
  then show ?thesis
    using k by (simp add: serialize_doc_def map_of_foldl_serialize)
qed

lemma item_dist_bad:
  "to_float sf (dict_get d_ser ''location_lat'') = Inl e
     \<or> to_float sf (dict_get d_ser ''location_lng'') = Inl e
   \<Longrightarrow> item_dist sf lat lng d_ser = PInt 9999"
  by (auto simp add: item_dist_def try_dist_def split: sum.splits)


lemma lat_absent:
  "map_of d ''location_lat'' = None \<Longrightarrow>
   to_float sf (dict_get (serialize_doc d) ''location_lat'') = Inl TypeError"
  by (simp add: dict_get_def map_of_serialize_doc_None)

lemma lng_absent:
  "map_of d ''location_lng'' = None \<Longrightarrow>
   to_float sf (dict_get (serialize_doc d) ''location_lng'') = Inl TypeError"
  by (simp add: dict_get_def map_of_serialize_doc_None)

lemma lat_not_numeral:
  "distinct (map fst d) \<Longrightarrow> map_of d ''location_lat'' = Some (PStr s) \<Longrightarrow> sf s = None \<Longrightarrow>
   to_float sf (dict_get (serialize_doc d) ''location_lat'') = Inl ValueError"
  by (simp add: dict_get_def map_of_serialize_doc serialize_val_def)


lemma haversine_same_point: "haversine_km lat lng lat lng = Inr 0"
  by (simp add: haversine_km_def math_sqrt_def math_atan2_def radians_def)

lemma py_round_zero: "py_round 0 n = 0"
  by (simp add: py_round_def round_half_even_def)

lemma ex_serialize:
  "serialize_doc [(''title'', PStr ''a'')] = [(''title'', PStr ''a'')]"
  "serialize_doc [(''location_lat'', PFloat 0), (''location_lng'', PInt 0)]
     = [(''location_lat'', PFloat 0), (''location_lng'', PInt 0)]"
  "serialize_doc [(''location_lat'', PInt 0), (''location_lng'', PInt 0), (''available'', PBool False)]
     = [(''location_lat'', PInt 0), (''location_lng'', PInt 0), (''available'', PBool False)]"
  by (simp_all add: serialize_doc_def serialize_field_def Let_def)

lemma ex_try_dist:
  "try_dist sf 0 0 [(''location_lat'', PFloat 0), (''location_lng'', PInt 0)] = Inr 0"
  "try_dist sf 0 0 [(''location_lat'', PInt 0), (''location_lng'', PInt 0), (''available'', PBool False)]
     = Inr 0"
  "try_dist sf 0 0 [(''title'', PStr ''a'')] = Inl TypeError"
  by (simp_all add: try_dist_def dict_get_def haversine_same_point)

lemma ex_available:
  "item_available [(''title'', PStr ''a'')]"
  "item_available [(''location_lat'', PFloat 0), (''location_lng'', PInt 0)]"
  "\<not> item_available
       [(''location_lat'', PInt 0), (''location_lng'', PInt 0), (''available'', PBool False)]"
  by (simp_all add: item_available_def ex_serialize dict_get_default_def)

lemma ex_search_dist:
  "search_dist sf 0 0 [(''title'', PStr ''a'')] = 9999"
  "search_dist sf 0 0 [(''location_lat'', PFloat 0), (''location_lng'', PInt 0)] = 0"
  by (simp_all add: search_dist_def item_dist_def ex_serialize ex_try_dist)

lemma ex_annotate:
  "annotate sf 0 0 [(''title'', PStr ''a'')] = [(''title'', PStr ''a''), (''distance_km'', PInt 9999)]"
  "annotate sf 0 0 [(''location_lat'', PFloat 0), (''location_lng'', PInt 0)]
     = [(''location_lat'', PFloat 0), (''location_lng'', PInt 0), (''distance_km'', PFloat 0)]"
  by (simp_all add: annotate_def item_dist_def ex_serialize ex_try_dist py_round_zero)


lemma search_dist_bad:
  "to_float sf (dict_get (serialize_doc d) ''location_lat'') = Inl e
     \<or> to_float sf (dict_get (serialize_doc d) ''location_lng'') = Inl e
   \<Longrightarrow> search_dist sf lat lng d = 9999"
  using item_dist_bad[of sf "serialize_doc d" e lat lng] by (simp add: search_dist_def)

lemma list_items_drop_unretained:
  "\<not> retained sf lat lng r d \<Longrightarrow>
   list_items sf (xs @ d # ys) lat lng r = list_items sf (xs @ ys) lat lng r"
  by (simp add: list_items_sort)

lemma mset_list_items_insert:
  "mset (list_items sf (xs @ d # ys) lat lng r) =
     mset (list_items sf (xs @ ys) lat lng r)
     + (if retained sf lat lng r d then {#annotate sf lat lng d#} else {#})"
  by (simp add: list_items_sort)

text \<open>
  Claim C5. The search has no failing branch: the \<^verbatim>\<open>try\<close>/\<^verbatim>\<open>except\<close> turns every failure
  of the conversions into the distance 9999. A document whose latitude or longitude does not
  convert (absent, or a string that \<^verbatim>\<open>float\<close> rejects) gets the distance 9999 and
  \<open>distance_km = 9999\<close>, is retained only when the radius is at least 9999 (and it is
  available), and the other documents are treated as if it were not there.
\<close>

theorem list_items_sentinel_distance:
  "(to_float sf (dict_get (serialize_doc d) ''location_lat'') = Inl e
      \<or> to_float sf (dict_get (serialize_doc d) ''location_lng'') = Inl e \<longrightarrow>
      search_dist sf lat lng d = 9999
      \<and> dict_get (annotate sf lat lng d) ''distance_km'' = PInt 9999
      \<and> distance_key (annotate sf lat lng d) = 9999
      \<and> retained sf lat lng r d = (9999 \<le> r \<and> item_available d)
      \<and> (r < 9999 \<longrightarrow>
           list_items sf (xs @ d # ys) lat lng r = list_items sf (xs @ ys) lat lng r)
      \<and> mset (list_items sf (xs @ d # ys) lat lng r) =
          mset (list_items sf (xs @ ys) lat lng r)
          + (if 9999 \<le> r \<and> item_available d then {#annotate sf lat lng d#} else {#}))
   \<and> (map_of d' ''location_lat'' = None \<or> map_of d' ''location_lng'' = None \<longrightarrow>
        search_dist sf lat lng d' = 9999)
   \<and> (distinct (map fst d') \<and> map_of d' ''location_lat'' = Some (PStr s) \<and> sf s = None \<longrightarrow>
        search_dist sf lat lng d' = 9999)"
proof -
  have a: "search_dist sf lat lng d = 9999
      \<and> dict_get (annotate sf lat lng d) ''distance_km'' = PInt 9999
      \<and> distance_key (annotate sf lat lng d) = 9999
      \<and> retained sf lat lng r d = (9999 \<le> r \<and> item_available d)
      \<and> (r < 9999 \<longrightarrow>
           list_items sf (xs @ d # ys) lat lng r = list_items sf (xs @ ys) lat lng r)
      \<and> mset (list_items sf (xs @ d # ys) lat lng r) =
          mset (list_items sf (xs @ ys) lat lng r)
          + (if 9999 \<le> r \<and> item_available d then {#annotate sf lat lng d#} else {#})"
    if bad: "to_float sf (dict_get (serialize_doc d) ''location_lat'') = Inl e
      \<or> to_float sf (dict_get (serialize_doc d) ''location_lng'') = Inl e"
  proof -
    have i: "item_dist sf lat lng (serialize_doc d) = PInt 9999"
      using bad by (rule item_dist_bad)
    have sd: "search_dist sf lat lng d = 9999"
      using bad by (rule search_dist_bad)
    have km: "dict_get (annotate sf lat lng d) ''distance_km'' = PInt 9999"
      by (simp add: annotate_def i dict_get_update_same)
    have key: "distance_key (annotate sf lat lng d) = 9999"
      by (simp add: distance_key_annotate i)
    have ret: "retained sf lat lng r d = (9999 \<le> r \<and> item_available d)"
      by (simp add: retained_def sd)
    have drop: "r < 9999 \<longrightarrow>
           list_items sf (xs @ d # ys) lat lng r = list_items sf (xs @ ys) lat lng r"
      using list_items_drop_unretained[of sf lat lng r d xs ys] by (simp add: ret)
    have ms: "mset (list_items sf (xs @ d # ys) lat lng r) =
          mset (list_items sf (xs @ ys) lat lng r)
          + (if 9999 \<le> r \<and> item_available d then {#annotate sf lat lng d#} else {#})"
      using mset_list_items_insert[of sf xs d ys lat lng r] by (simp only: ret)
    show ?thesis using sd km key ret drop ms by (simp only: simp_thms)
  qed
  have b: "map_of d' ''location_lat'' = None \<or> map_of d' ''location_lng'' = None \<longrightarrow>
        search_dist sf lat lng d' = 9999"
    using search_dist_bad[of sf d' TypeError lat lng] lat_absent[of d' sf] lng_absent[of d' sf]
    by auto
  have c: "distinct (map fst d') \<and> map_of d' ''location_lat'' = Some (PStr s) \<and> sf s = None \<longrightarrow>
        search_dist sf lat lng d' = 9999"
    using search_dist_bad[of sf d' ValueError lat lng] lat_not_numeral[of d' s sf] by auto
  show ?thesis using a b c by blast
qed

theorem list_items_sentinel_distance_witness:
  "to_float no_float (dict_get (serialize_doc [(''location_lat'', PStr ''abc'')]) ''location_lat'')
     = Inl ValueError
   \<and> distinct (map fst [(''location_lat'', PStr ''abc'')])
   \<and> map_of [(''location_lat'', PStr ''abc'')] ''location_lat'' = Some (PStr ''abc'')
   \<and> map_of [(''location_lat'', PStr ''abc'')] ''location_lng'' = None
   \<and> search_dist no_float 0 0 [(''location_lat'', PStr ''abc'')] = 9999
   \<and> dict_get (annotate no_float 0 0 [(''location_lat'', PStr ''abc'')]) ''distance_km''
       = PInt 9999
   \<and> \<not> retained no_float 0 0 2 [(''location_lat'', PStr ''abc'')]
   \<and> (2 :: real) < 9999
   \<and> list_items no_float
         ([[(''location_lat'', PFloat 0), (''location_lng'', PInt 0)]]
          @ [(''location_lat'', PStr ''abc'')] # []) 0 0 2
       = list_items no_float
         ([[(''location_lat'', PFloat 0), (''location_lng'', PInt 0)]] @ []) 0 0 2"
proof -
  let ?d = "[(''location_lat'', PStr ''abc'')]"
  have ser: "serialize_doc ?d = ?d"
    by (simp add: serialize_doc_def serialize_field_def Let_def)
  have h1: "to_float no_float (dict_get (serialize_doc ?d) ''location_lat'') = Inl ValueError"
    by (simp add: ser dict_get_def)
  have h2: "distinct (map fst ?d)" by simp
  have h3: "map_of ?d ''location_lat'' = Some (PStr ''abc'')" by simp
  have h4: "map_of ?d ''location_lng'' = None" by simp
  have h5: "(2 :: real) < 9999" by simp
  note t = list_items_sentinel_distance[of no_float ?d ValueError 0 0 2
      "[[(''location_lat'', PFloat 0), (''location_lng'', PInt 0)]]" "[]" ?d "''abc''"]
  show ?thesis
    using t h1 h2 h3 h4 h5 by simp
qed

text \<open>
  Claim C3, as stated, fails: with the radius \<open>- 1\<close> an available document at distance
  exactly 0 from the centre is not returned.
\<close>

theorem negative_radius_excludes_distance_zero:
  "list_items no_float [[(''location_lat'', PFloat 0), (''location_lng'', PInt 0)]] 0 0 (- 1) = []
   \<and> search_dist no_float 0 0 [(''location_lat'', PFloat 0), (''location_lng'', PInt 0)] = 0
   \<and> item_available [(''location_lat'', PFloat 0), (''location_lng'', PInt 0)]"
  by (simp add: list_items_sort retained_def ex_search_dist ex_available)

text \<open>
  Claim C3, amended. With a negative radius the search returns nothing; with the radius 0 it
  returns exactly the available documents at distance 0, in their input order.
\<close>

theorem list_items_nonpositive_radius:
  "(r < 0 \<longrightarrow> list_items sf docs lat lng r = [])
   \<and> list_items sf docs lat lng 0 =
       map (annotate sf lat lng)
         (filter (\<lambda>d. search_dist sf lat lng d = 0 \<and> item_available d) docs)"
proof -
  have a: "r < 0 \<longrightarrow> list_items sf docs lat lng r = []"
  proof
    assume r: "r < 0"
    have "\<not> retained sf lat lng r d" for d
      using search_dist_nonneg[of sf lat lng d] r by (simp add: retained_def)
    then show "list_items sf docs lat lng r = []"
      by (simp add: list_items_sort)
  qed
  have "retained sf lat lng 0 d = (search_dist sf lat lng d = 0 \<and> item_available d)" for d
    using search_dist_nonneg[of sf lat lng d] by (auto simp add: retained_def)
  then have eq: "retained sf lat lng 0 = (\<lambda>d. search_dist sf lat lng d = 0 \<and> item_available d)"
    by (simp add: fun_eq_iff)
  have key: "distance_key x = 0"
    if "x \<in> set (map (annotate sf lat lng) (filter (retained sf lat lng 0) docs))" for x
  proof -
    from that obtain d where x: "x = annotate sf lat lng d" and z: "search_dist sf lat lng d = 0"
      by (auto simp add: eq)
    from z show ?thesis
      unfolding x distance_key_annotate search_dist_def
      by (cases "item_dist sf lat lng (serialize_doc d)")
        (simp_all add: py_round_zero item_dist_def split: sum.splits)
  qed
  have b: "list_items sf docs lat lng 0 =
       map (annotate sf lat lng)
         (filter (\<lambda>d. search_dist sf lat lng d = 0 \<and> item_available d) docs)"
    unfolding list_items_sort using sort_key_const[of _ distance_key 0, OF key]
    by (simp only: eq)
  show ?thesis using a b by (simp only: simp_thms)
qed

theorem list_items_nonpositive_radius_witness:
  "(- 1 :: real) < 0
   \<and> list_items no_float [[(''location_lat'', PFloat 0), (''location_lng'', PInt 0)]] 0 0 (- 1)
       = []
   \<and> list_items no_float
         [[(''title'', PStr ''a'')], [(''location_lat'', PFloat 0), (''location_lng'', PInt 0)]] 0 0 0
       = [[(''location_lat'', PFloat 0), (''location_lng'', PInt 0), (''distance_km'', PFloat 0)]]"
proof -
  have h: "(- 1 :: real) < 0" by simp
  have a: "list_items no_float
      [[(''location_lat'', PFloat 0), (''location_lng'', PInt 0)]] 0 0 (- 1) = []"
    using h list_items_nonpositive_radius[of "- 1" no_float "[[(''location_lat'', PFloat 0), (''location_lng'', PInt 0)]]"
        0 0]
    by simp
  have b: "list_items no_float
         [[(''title'', PStr ''a'')], [(''location_lat'', PFloat 0), (''location_lng'', PInt 0)]] 0 0 0
       = [[(''location_lat'', PFloat 0), (''location_lng'', PInt 0), (''distance_km'', PFloat 0)]]"
    using list_items_nonpositive_radius[of 0 no_float
        "[[(''title'', PStr ''a'')], [(''location_lat'', PFloat 0), (''location_lng'', PInt 0)]]" 0 0]
    by (simp add: ex_search_dist ex_available ex_annotate)
  show ?thesis using h a b by (simp only: simp_thms)
qed

section \<open>Properties over the arithmetic of the runtime\<close>

text \<open>
  With the runtime of exact arithmetic the definitions over a runtime are those of the sections
  above; the examples are computed in it.
\<close>

lemma exact_rt_sel [simp]:
  "rt_float_of_str (exact_rt sf) = sf" "rt_float_of_int (exact_rt sf) = of_int"
  "rt_lower (exact_rt sf) = lower" "rt_lit (exact_rt sf) x = x"
  "rt_add (exact_rt sf) = (+)" "rt_sub (exact_rt sf) = (-)" "rt_mul (exact_rt sf) = (*)"
  "rt_div (exact_rt sf) = (/)" "rt_pow (exact_rt sf) = (^)" "rt_radians (exact_rt sf) = radians"
  "rt_sin (exact_rt sf) = sin" "rt_cos (exact_rt sf) = cos" "rt_sqrt (exact_rt sf) = sqrt"
  "rt_atan2 (exact_rt sf) = math_atan2" "rt_round (exact_rt sf) = py_round"
  by (simp_all add: exact_rt_def)

lemma to_float_exact: "to_float_rt (exact_rt sf) v = to_float sf v"
  by (cases v) simp_all

lemma val_lower_exact: "val_lower_rt (exact_rt sf) v = val_lower v"
  by (cases v) simp_all

lemma stats_step_exact: "stats_step_rt (exact_rt sf) st it = stats_step sf st it"
  by (simp add: stats_step_rt_def stats_step_def to_float_exact val_lower_exact Let_def
        split: sum.splits)

lemma stats_loop_exact: "stats_loop_rt (exact_rt sf) st items = stats_loop sf st items"
  by (induction items arbitrary: st) (simp_all add: stats_step_exact split: sum.splits)

lemma user_stats_exact: "user_stats_rt (exact_rt sf) items = user_stats sf items"
  by (simp add: user_stats_rt_def user_stats_def stats_loop_exact split: sum.splits)

lemma haversine_exact: "haversine_rt (exact_rt sf) lat1 lon1 lat2 lon2 = haversine_km lat1 lon1 lat2 lon2"
  by (simp add: haversine_rt_def haversine_km_def math_sqrt_def Let_def)

lemma try_dist_exact: "try_dist_rt (exact_rt sf) lat lng d = try_dist sf lat lng d"
  by (simp add: try_dist_rt_def try_dist_def to_float_exact haversine_exact split: sum.splits)

lemma item_dist_exact: "item_dist_rt (exact_rt sf) lat lng d = item_dist sf lat lng d"
  by (simp add: item_dist_rt_def item_dist_def try_dist_exact split: sum.splits)

lemma round_val_exact: "round_val_rt (exact_rt sf) v n = round_val v n"
  by (cases v) simp_all







subsection \<open>Diversion aggregator\<close>

lemma stats_step_rt_conv:
  "stats_step_rt rt st it =
     (if convertible_rt rt it
      then Inr (if claimed it then fst st + 1 else fst st, rt_add rt (snd st) (item_kg_rt rt it))
      else Inl (case val_lower_rt rt (unit_val it) of Inl e \<Rightarrow> e
                | Inr u \<Rightarrow> (case to_float_rt rt (qty_val it) of Inl e \<Rightarrow> e | Inr f \<Rightarrow> ValueError)))"
  by (simp add: stats_step_rt_def convertible_rt_def claimed_def item_kg_rt_def qty_of_rt_def
        unit_of_rt_def Let_def split: sum.splits)

lemma stats_loop_rt_ok:
  "list_all (convertible_rt rt) items \<Longrightarrow>
   stats_loop_rt rt st items =
     Inr (fst st + length (filter claimed items),
          foldl (\<lambda>acc it. rt_add rt acc (item_kg_rt rt it)) (snd st) items)"
  by (induction items arbitrary: st) (simp_all add: stats_step_rt_conv)

lemma user_stats_rt_ok:
  "list_all (convertible_rt rt) items \<Longrightarrow>
   user_stats_rt rt items =
     Inr \<lparr> items_shared = length items, people_helped = length (filter claimed items),
           kilograms_diverted = rt_round rt (kg_total_rt rt items) 2 \<rparr>"
  by (simp add: user_stats_rt_def stats_loop_rt_ok kg_total_rt_def)

lemma qty_rt_absent: "map_of it ''quantity'' = None \<Longrightarrow> qty_of_rt rt it = rt_float_of_int rt 0"
  by (simp add: qty_of_rt_def qty_val_def dict_get_def)

lemma unit_rt_absent: "map_of it ''unit'' = None \<Longrightarrow> unit_of_rt rt it = rt_lower rt []"
  by (simp add: unit_of_rt_def unit_val_def dict_get_def)

lemma unit_rt_str: "map_of it ''unit'' = Some (PStr s) \<Longrightarrow> unit_of_rt rt it = rt_lower rt s"
  by (cases "s = []") (simp_all add: unit_of_rt_def unit_val_def dict_get_def)

lemma ex_stats_rt:
  assumes "rt_float_of_int rt 2 = 2" "rt_float_of_int rt 500 = 500"
    "rt_lower rt ''kg'' = ''kg''" "rt_lower rt ''g'' = ''g''"
    "rt_add rt 0 2 = 2" "rt_div rt 500 1000 = 1 / 2" "rt_add rt 2 (1 / 2) = 5 / 2"
    "rt_round rt (5 / 2) 2 = 5 / 2"
  shows "user_stats_rt rt
     [[(''quantity'', PInt 2), (''unit'', PStr ''kg''), (''available'', PBool True)],
      [(''quantity'', PInt 500), (''unit'', PStr ''g''), (''available'', PBool False)]]
   = Inr \<lparr> items_shared = 2, people_helped = 1, kilograms_diverted = 5 / 2 \<rparr>"
proof -
  have "user_stats_rt rt
     [[(''quantity'', PInt 2), (''unit'', PStr ''kg''), (''available'', PBool True)],
      [(''quantity'', PInt 500), (''unit'', PStr ''g''), (''available'', PBool False)]]
   = Inr \<lparr> items_shared = 2, people_helped = 1,
          kilograms_diverted =
            rt_round rt (rt_add rt (rt_add rt 0 (rt_float_of_int rt 2))
                           (rt_div rt (rt_float_of_int rt 500) 1000)) 2 \<rparr>"
    by (simp add: user_stats_rt_def stats_step_rt_def unit_val_def qty_val_def dict_get_def
          dict_get_default_def assms(3,4))
  then show ?thesis
    by (simp only: assms)
qed

text \<open>
  Claim C2, amended. For every sequence of items that go through the conversions,
  \<^verbatim>\<open>user_stats\<close> returns the number of items, the number of items whose \<open>available\<close> is
  \<open>False\<close> itself, and the running total rounded to 2 places by the runtime. The total starts
  at 0 and receives, item by item in input order and by the addition of the runtime, the
  quantity after \<^verbatim>\<open>float\<close> (that of the integer 0 when the quantity is absent): as it is for
  kg, kilo, kilogram(s); divided by 1000 for g, gram(s); multiplied by the double of 0.453592 for
  lb(s), pound(s); multiplied by the double of 0.2 for any other unit. The unit is the stored
  string after \<^verbatim>\<open>.lower()\<close> (the empty string when absent) and is not trimmed. In a runtime
  that computes the exactly representable steps of the example exactly, the two items of the
  specification's example give 2, 1 and 2.5.
\<close>

theorem user_stats_rt_value:
  "(list_all (convertible_rt rt) items \<longrightarrow>
      user_stats_rt rt items =
        Inr \<lparr> items_shared = length items, people_helped = length (filter claimed items),
              kilograms_diverted = rt_round rt (kg_total_rt rt items) 2 \<rparr>)
   \<and> (map_of it1 ''quantity'' = None \<longrightarrow> qty_of_rt rt it1 = rt_float_of_int rt 0)
   \<and> (map_of it2 ''unit'' = None \<longrightarrow> unit_of_rt rt it2 = rt_lower rt [])
   \<and> (map_of it3 ''unit'' = Some (PStr s) \<longrightarrow> unit_of_rt rt it3 = rt_lower rt s)
   \<and> (rt_float_of_int rt 2 = 2 \<and> rt_float_of_int rt 500 = 500
        \<and> rt_lower rt ''kg'' = ''kg'' \<and> rt_lower rt ''g'' = ''g''
        \<and> rt_add rt 0 2 = 2 \<and> rt_div rt 500 1000 = 1 / 2 \<and> rt_add rt 2 (1 / 2) = 5 / 2
        \<and> rt_round rt (5 / 2) 2 = 5 / 2 \<longrightarrow>
      user_stats_rt rt
        [[(''quantity'', PInt 2), (''unit'', PStr ''kg''), (''available'', PBool True)],
         [(''quantity'', PInt 500), (''unit'', PStr ''g''), (''available'', PBool False)]]
      = Inr \<lparr> items_shared = 2, people_helped = 1, kilograms_diverted = 5 / 2 \<rparr>)"
proof -
  have a: "list_all (convertible_rt rt) items \<longrightarrow>
      user_stats_rt rt items =
        Inr \<lparr> items_shared = length items, people_helped = length (filter claimed items),
              kilograms_diverted = rt_round rt (kg_total_rt rt items) 2 \<rparr>"
    by (simp add: user_stats_rt_ok)
  have b: "map_of it1 ''quantity'' = None \<longrightarrow> qty_of_rt rt it1 = rt_float_of_int rt 0"
    by (simp add: qty_rt_absent)
  have c: "map_of it2 ''unit'' = None \<longrightarrow> unit_of_rt rt it2 = rt_lower rt []"
    by (simp add: unit_rt_absent)
  have d: "map_of it3 ''unit'' = Some (PStr s) \<longrightarrow> unit_of_rt rt it3 = rt_lower rt s"
    by (simp add: unit_rt_str)
  have e: "rt_float_of_int rt 2 = 2 \<and> rt_float_of_int rt 500 = 500
        \<and> rt_lower rt ''kg'' = ''kg'' \<and> rt_lower rt ''g'' = ''g''
        \<and> rt_add rt 0 2 = 2 \<and> rt_div rt 500 1000 = 1 / 2 \<and> rt_add rt 2 (1 / 2) = 5 / 2
        \<and> rt_round rt (5 / 2) 2 = 5 / 2 \<longrightarrow>
      user_stats_rt rt
        [[(''quantity'', PInt 2), (''unit'', PStr ''kg''), (''available'', PBool True)],
         [(''quantity'', PInt 500), (''unit'', PStr ''g''), (''available'', PBool False)]]
      = Inr \<lparr> items_shared = 2, people_helped = 1, kilograms_diverted = 5 / 2 \<rparr>"
    using ex_stats_rt[of rt] by blast
  show ?thesis using a b c d e by (simp only: simp_thms)
qed


theorem user_stats_rt_value_witness:
  "list_all (convertible_rt (exact_rt no_float))
     [[(''quantity'', PInt 3)], [(''quantity'', PInt 2), (''unit'', PStr ''LBS'')]]
   \<and> user_stats_rt (exact_rt no_float)
       [[(''quantity'', PInt 3)], [(''quantity'', PInt 2), (''unit'', PStr ''LBS'')]]
     = Inr \<lparr> items_shared = 2, people_helped = 0, kilograms_diverted = 151 / 100 \<rparr>
   \<and> map_of [(''unit'', PStr ''kg'')] ''quantity'' = None
   \<and> qty_of_rt (exact_rt no_float) [(''unit'', PStr ''kg'')] = 0
   \<and> map_of [(''quantity'', PInt 3)] ''unit'' = None
   \<and> unit_of_rt (exact_rt no_float) [(''quantity'', PInt 3)] = []
   \<and> map_of [(''quantity'', PInt 2), (''unit'', PStr ''LBS'')] ''unit'' = Some (PStr ''LBS'')
   \<and> unit_of_rt (exact_rt no_float) [(''quantity'', PInt 2), (''unit'', PStr ''LBS'')] = ''lbs''
   \<and> rt_float_of_int (exact_rt no_float) 2 = 2
   \<and> rt_float_of_int (exact_rt no_float) 500 = 500
   \<and> rt_lower (exact_rt no_float) ''kg'' = ''kg''
   \<and> rt_lower (exact_rt no_float) ''g'' = ''g''
   \<and> rt_add (exact_rt no_float) 0 2 = 2
   \<and> rt_div (exact_rt no_float) 500 1000 = 1 / 2
   \<and> rt_add (exact_rt no_float) 2 (1 / 2) = 5 / 2
   \<and> rt_round (exact_rt no_float) (5 / 2) 2 = 5 / 2
   \<and> user_stats_rt (exact_rt no_float)
        [[(''quantity'', PInt 2), (''unit'', PStr ''kg''), (''available'', PBool True)],
         [(''quantity'', PInt 500), (''unit'', PStr ''g''), (''available'', PBool False)]]
      = Inr \<lparr> items_shared = 2, people_helped = 1, kilograms_diverted = 5 / 2 \<rparr>"
proof -
  let ?rt = "exact_rt no_float"
  let ?a = "[(''quantity'', PInt 3)]"
  let ?b = "[(''quantity'', PInt 2), (''unit'', PStr ''LBS'')]"
  have h1: "list_all (convertible_rt ?rt) [?a, ?b]"
    by (simp add: convertible_rt_def unit_val_def qty_val_def dict_get_def)
  have h2: "map_of [(''unit'', PStr ''kg'')] ''quantity'' = None" by simp
  have h3: "map_of ?a ''unit'' = None" by simp
  have h4: "map_of ?b ''unit'' = Some (PStr ''LBS'')" by simp
  have l: "lower ''LBS'' = ''lbs''" "lower [] = []" by code_simp+
  have e: "rt_float_of_int ?rt 2 = 2" "rt_float_of_int ?rt 500 = 500"
    "rt_lower ?rt ''kg'' = ''kg''" "rt_lower ?rt ''g'' = ''g''"
    "rt_add ?rt 0 2 = 2" "rt_div ?rt 500 1000 = 1 / 2" "rt_add ?rt 2 (1 / 2) = 5 / 2"
    "rt_round ?rt (5 / 2) 2 = 5 / 2"
    by (simp_all add: lower_kg py_round_5_2)
  have nc: "\<not> claimed ?a" "\<not> claimed ?b"
    by (simp_all add: claimed_def dict_get_default_def)
  note t = user_stats_rt_value[of ?rt "[?a, ?b]" "[(''unit'', PStr ''kg'')]" ?a ?b "''LBS''"]
  have q0: "qty_of_rt ?rt [(''unit'', PStr ''kg'')] = 0" using t h2 by simp
  have ua: "unit_of_rt ?rt ?a = []" using t h3 l by simp
  have ub: "unit_of_rt ?rt ?b = ''lbs''" using t h4 l by simp
  have qa: "qty_of_rt ?rt ?a = 3"
    by (simp add: qty_of_rt_def qty_val_def dict_get_def)
  have qb: "qty_of_rt ?rt ?b = 2"
    by (simp add: qty_of_rt_def qty_val_def dict_get_def)
  have ka: "item_kg_rt ?rt ?a = 3 / 5"
    unfolding item_kg_rt_def ua qa by simp
  have kb: "item_kg_rt ?rt ?b = 56699 / 62500"
    unfolding item_kg_rt_def ub qb by simp
  have sum: "kg_total_rt ?rt [?a, ?b] = 94199 / 62500"
    unfolding kg_total_rt_def foldl.simps ka kb by simp
  have fl: "\<lfloor>94199 / 62500 * 10 ^ 2 :: real\<rfloor> = 150"
    by (simp add: floor_eq_iff)
  have rd: "py_round (94199 / 62500) 2 = 151 / 100"
    unfolding py_round_def round_half_even_def Let_def fl by simp
  have us: "user_stats_rt ?rt [?a, ?b]
     = Inr \<lparr> items_shared = 2, people_helped = 0, kilograms_diverted = 151 / 100 \<rparr>"
    using t h1 nc unfolding sum by (simp add: rd)
  have ex: "user_stats_rt ?rt
        [[(''quantity'', PInt 2), (''unit'', PStr ''kg''), (''available'', PBool True)],
         [(''quantity'', PInt 500), (''unit'', PStr ''g''), (''available'', PBool False)]]
      = Inr \<lparr> items_shared = 2, people_helped = 1, kilograms_diverted = 5 / 2 \<rparr>"
    using t e by blast
  show ?thesis
    using h1 us h2 q0 h3 ua h4 ub e ex by (simp only: simp_thms)
qed

subsection \<open>Proximity search\<close>




lemma distance_key_annotate_rt:
  "distance_key (annotate_rt rt lat lng d) =
     num_val (round_val_rt rt (item_dist_rt rt lat lng (serialize_doc d)) 2)"
  by (simp add: distance_key_def annotate_rt_def dict_get_default_update_same)



lemma search_dist_exact: "search_dist_rt (exact_rt sf) lat lng d = search_dist sf lat lng d"
  by (simp add: search_dist_rt_def search_dist_def item_dist_exact)

lemma annotate_exact: "annotate_rt (exact_rt sf) lat lng d = annotate sf lat lng d"
  by (simp add: annotate_rt_def annotate_def item_dist_exact round_val_exact)

lemma retained_exact: "retained_rt (exact_rt sf) lat lng r d = retained sf lat lng r d"
  by (simp add: retained_rt_def retained_def search_dist_exact)

















end
